theory Spec2Isabelle
  imports Complex_Main "HOL-Library.Sublist"
begin

section \<open>The DOM clean-up run inside \<open>page.evaluate\<close>\<close>

text \<open>
  Both scripts (\<^verbatim>\<open>src/test-generatior.ts\<close> and \<^verbatim>\<open>src/tester.ts\<close>) pass a callback to
  \<^verbatim>\<open>page.evaluate\<close> that edits the live DOM and then reads \<^verbatim>\<open>document.body.innerHTML\<close>.

  A DOM node is a text node, a comment or an element with its tag name (the local name,
  lower case in an HTML document), its attributes in order and its children in order.
\<close>

datatype node =
  Text string
  | Comment string
  | Element string "(string \<times> string) list" "node list"

text \<open>\<^verbatim>\<open>element.removeAttribute(name)\<close>: the attribute of that name is dropped, the others
  stay. Names are compared as the DOM holds them (lower case on the elements of an HTML
  document).\<close>

definition removeAttribute :: "string \<Rightarrow> (string \<times> string) list \<Rightarrow> (string \<times> string) list" where
  "removeAttribute name attrs = filter (\<lambda>a. fst a \<noteq> name) attrs"

text \<open>
  \<^verbatim>\<open>document.querySelectorAll('*').forEach(element => element.removeAttribute('style'))\<close>,
  seen from one element: the element and every element below it lose their style attribute.
\<close>

fun removeAllStyles :: "node \<Rightarrow> node" where
  "removeAllStyles (Text t) = Text t"
| "removeAllStyles (Comment t) = Comment t"
| "removeAllStyles (Element tag attrs children) =
     Element tag (removeAttribute ''style'' attrs) (map removeAllStyles children)"

text \<open>
  A selector list such as \<^verbatim>\<open>'link, script, style'\<close> is a list of type selectors; an element
  matches it when its tag name is one of them. Text and comments match no selector.
\<close>

fun matches :: "string list \<Rightarrow> node \<Rightarrow> bool" where
  "matches sel (Element tag attrs children) = (tag \<in> set sel)"
| "matches sel (Text t) = False"
| "matches sel (Comment t) = False"

text \<open>
  \<^verbatim>\<open>document.body.querySelectorAll(sel).forEach(el => el.remove())\<close>, seen from the element
  the query starts at. The query returns the matching descendants, the element itself is
  not among them, and each is detached from its parent. So what stays below the element
  are its non-matching children, each cleaned in the same way. (A match below another match
  is detached inside a subtree that has already left the document, which changes nothing
  below the element.)
\<close>

fun removeSelected :: "string list \<Rightarrow> node \<Rightarrow> node" where
  "removeSelected sel (Text t) = Text t"
| "removeSelected sel (Comment t) = Comment t"
| "removeSelected sel (Element tag attrs children) =
     Element tag attrs (map (removeSelected sel) (filter (\<lambda>c. \<not> matches sel c) children))"

text \<open>The selector of each script.\<close>

definition generator_selector :: "string list" where
  "generator_selector = [''link'', ''script'', ''style'', ''svg'', ''meta'']"

definition tester_selector :: "string list" where
  "tester_selector = [''link'', ''script'', ''style'']"

text \<open>
  The state of \<^verbatim>\<open>document.body\<close> when the callback reaches its \<^verbatim>\<open>return\<close>.
\<close>

definition sanitizedBody :: "string list \<Rightarrow> node \<Rightarrow> node" where
  "sanitizedBody sel body = removeSelected sel (removeAllStyles body)"

text \<open>
  A JavaScript exception: an \<^verbatim>\<open>Error\<close> object with its name, message and stack, or any
  other thrown value.
\<close>

datatype js_error =
  Error string string string
  | Thrown string

text \<open>
  The callback itself. The browser's HTML serializer is not code of the scripts: \<open>innerHTML\<close>
  is a parameter that maps an element to the serialization of its children. A document
  without a body has \<^verbatim>\<open>document.body === null\<close>, and the call of \<^verbatim>\<open>querySelectorAll\<close> on it
  throws a TypeError.
\<close>

definition null_body_error :: js_error where
  "null_body_error = Error ''TypeError'' ''Cannot read properties of null'' ''''"

definition captureBodyHtml :: "string list \<Rightarrow> (node \<Rightarrow> string) \<Rightarrow> node option \<Rightarrow> js_error + string" where
  "captureBodyHtml sel innerHTML body =
     (case body of
        None \<Rightarrow> Inl null_body_error
      | Some b \<Rightarrow> Inr (innerHTML (sanitizedBody sel b)))"



section \<open>The two scripts\<close>

text \<open>
  \<^verbatim>\<open>src/test-generatior.ts\<close> (below: the generator) and \<^verbatim>\<open>src/tester.ts\<close> (below: the
  tester) each define \<^verbatim>\<open>runTest\<close> and \<^verbatim>\<open>generatePlaywrightCode\<close> and end with one call of
  \<^verbatim>\<open>runTest\<close>. Everything they do goes through external collaborators: the browser driver,
  the console, the LLM endpoint, \<^verbatim>\<open>JSON\<close> and the file system.
\<close>

subsection \<open>Values\<close>

text \<open>A JSON value, as \<^verbatim>\<open>JSON.parse\<close> returns it; a number is kept as its literal.\<close>

datatype json =
  JNull
  | JBool bool
  | JNumber string
  | JString string
  | JArray "json list"
  | JObject "(string \<times> json) list"

text \<open>The two call sites of \<^verbatim>\<open>anthropic.messages.create\<close>: in \<^verbatim>\<open>runTest\<close> and in
  \<^verbatim>\<open>generatePlaywrightCode\<close>.\<close>

datatype stage = Extract | Generate

text \<open>The argument of \<^verbatim>\<open>messages.create\<close>; a message is a role and a content.\<close>

record request =
  model :: string
  max_tokens :: nat
  temperature :: rat
  messages :: "(string \<times> string) list"

text \<open>A response is read only through \<^verbatim>\<open>content[0].text\<close>. The requests declare no
  tools, so every content block is a text block: a response is the list of their texts.\<close>

type_synonym message = "string list"

text \<open>What \<^verbatim>\<open>console.error\<close> receives after its label: the three fields of an
  \<^verbatim>\<open>Error\<close>, or the thrown value as it is.\<close>

datatype logged =
  Fields string string string
  | Raw string

text \<open>The calls that leave the script, and an event: a call with how it ended
  (\<open>None\<close>: it returned, \<open>Some e\<close>: it threw or rejected with \<open>e\<close>).\<close>

datatype call =
  Launch
  | NewPage
  | Goto string
  | Evaluate
  | ConsoleLog "string list"
  | MessagesCreate stage request
  | WriteFileSync string string
  | ConsoleError string logged
  | PageClose
  | BrowserClose

type_synonym event = "call \<times> js_error option"

subsection \<open>The outside world of one run\<close>

text \<open>
  How each collaborator answers. None of it is code of the repository.
  \<^item> \<open>launch\<close>, \<open>newPage\<close>, \<open>goto url\<close>, \<open>page_close\<close>, \<open>browser_close\<close>: \<open>None\<close> when the
    awaited call resolves, \<open>Some e\<close> when it rejects with \<open>e\<close>;
  \<^item> \<open>document_body url\<close>: the body element of the document the page shows after
    \<^verbatim>\<open>goto(url)\<close> (\<open>None\<close>: the document has no body); \<open>evaluate_fault\<close>: \<^verbatim>\<open>page.evaluate\<close>
    rejects before the callback can run; \<open>innerHTML\<close>: the browser's serializer;
  \<^item> \<open>messages_create\<close>: the LLM's answer to a request at each call site;
  \<^item> \<open>JSON_parse\<close>, \<open>JSON_stringify\<close>: the built-in \<^verbatim>\<open>JSON\<close> object;
  \<^item> \<open>writeFileSync path data\<close>: \<open>None\<close> when the write succeeds.
\<close>

record env =
  launch :: "js_error option"
  newPage :: "js_error option"
  goto :: "string \<Rightarrow> js_error option"
  document_body :: "string \<Rightarrow> node option"
  evaluate_fault :: "js_error option"
  innerHTML :: "node \<Rightarrow> string"
  messages_create :: "stage \<Rightarrow> request \<Rightarrow> js_error + message"
  JSON_parse :: "string \<Rightarrow> js_error + json"
  JSON_stringify :: "json \<Rightarrow> string"
  writeFileSync :: "string \<Rightarrow> string \<Rightarrow> js_error option"
  page_close :: "js_error option"
  browser_close :: "js_error option"

text \<open>
  The state a run changes: the events so far, the files (path to content), the two local
  variables of \<^verbatim>\<open>runTest\<close> (\<open>True\<close>: not \<^verbatim>\<open>null\<close>), and how many browsers and pages are open.
\<close>

record state =
  trace :: "event list"
  files :: "string \<rightharpoonup> string"
  browser :: bool
  page :: bool
  open_browsers :: nat
  open_pages :: nat

definition initial :: "(string \<rightharpoonup> string) \<Rightarrow> state" where
  "initial fs = \<lparr>trace = [], files = fs, browser = False, page = False,
     open_browsers = 0, open_pages = 0\<rparr>"

subsection \<open>Statements that can throw\<close>

text \<open>A statement maps the state to its completion (\<open>Inl e\<close>: it threw \<open>e\<close>) and the new state.\<close>

type_synonym 'a action = "state \<Rightarrow> (js_error + 'a) \<times> state"

text \<open>Sequencing: a throw skips what follows.\<close>

definition andThen :: "'a action \<Rightarrow> ('a \<Rightarrow> 'b action) \<Rightarrow> 'b action" where
  "andThen m f s = (case m s of (Inl e, s') \<Rightarrow> (Inl e, s') | (Inr x, s') \<Rightarrow> f x s')"

text \<open>An expression that touches no state.\<close>

definition evaluated :: "js_error + 'a \<Rightarrow> 'a action" where
  "evaluated r s = (r, s)"

text \<open>
  \<^verbatim>\<open>try { body } catch (error) { handler } finally { cleanup }\<close>: the handler runs when the
  body throws, the cleanup runs in every case, and a throw of the cleanup replaces the
  completion of what ran before it.
\<close>

definition try_catch_finally :: "unit action \<Rightarrow> (js_error \<Rightarrow> unit action) \<Rightarrow> unit action \<Rightarrow> unit action" where
  "try_catch_finally body handler cleanup s =
     (case body s of (r1, s1) \<Rightarrow>
        (case (case r1 of Inl e \<Rightarrow> handler e s1 | Inr u \<Rightarrow> (Inr u, s1)) of (r2, s2) \<Rightarrow>
           (case cleanup s2 of (r3, s3) \<Rightarrow>
              (case r3 of Inl e \<Rightarrow> (Inl e, s3) | Inr u \<Rightarrow> (r2, s3)))))"

definition emit :: "call \<Rightarrow> js_error option \<Rightarrow> state \<Rightarrow> state" where
  "emit c r s = s\<lparr>trace := trace s @ [(c, r)]\<rparr>"

subsection \<open>The external calls\<close>

definition chromium_launch :: "env \<Rightarrow> unit action" where
  "chromium_launch env s =
     (case launch env of
        Some e \<Rightarrow> (Inl e, emit Launch (Some e) s)
      | None \<Rightarrow> (Inr (), (emit Launch None s)\<lparr>open_browsers := Suc (open_browsers s)\<rparr>))"

definition assign_browser :: "unit action" where
  "assign_browser s = (Inr (), s\<lparr>browser := True\<rparr>)"

definition browser_newPage :: "env \<Rightarrow> unit action" where
  "browser_newPage env s =
     (case newPage env of
        Some e \<Rightarrow> (Inl e, emit NewPage (Some e) s)
      | None \<Rightarrow> (Inr (), (emit NewPage None s)\<lparr>open_pages := Suc (open_pages s)\<rparr>))"

definition assign_page :: "unit action" where
  "assign_page s = (Inr (), s\<lparr>page := True\<rparr>)"

definition page_goto :: "env \<Rightarrow> string \<Rightarrow> unit action" where
  "page_goto env url s =
     (case goto env url of
        Some e \<Rightarrow> (Inl e, emit (Goto url) (Some e) s)
      | None \<Rightarrow> (Inr (), emit (Goto url) None s))"

text \<open>\<^verbatim>\<open>page.evaluate(callback)\<close> with the callback of the section above.\<close>

definition page_evaluate :: "string list \<Rightarrow> env \<Rightarrow> string \<Rightarrow> string action" where
  "page_evaluate sel env url s =
     (case evaluate_fault env of
        Some e \<Rightarrow> (Inl e, emit Evaluate (Some e) s)
      | None \<Rightarrow>
          (case captureBodyHtml sel (innerHTML env) (document_body env url) of
             Inl e \<Rightarrow> (Inl e, emit Evaluate (Some e) s)
           | Inr html \<Rightarrow> (Inr html, emit Evaluate None s)))"

definition console_log :: "string list \<Rightarrow> unit action" where
  "console_log items s = (Inr (), emit (ConsoleLog items) None s)"

definition console_error :: "string \<Rightarrow> logged \<Rightarrow> unit action" where
  "console_error label item s = (Inr (), emit (ConsoleError label item) None s)"

definition anthropic_messages_create :: "env \<Rightarrow> stage \<Rightarrow> request \<Rightarrow> message action" where
  "anthropic_messages_create env st req s =
     (case messages_create env st req of
        Inl e \<Rightarrow> (Inl e, emit (MessagesCreate st req) (Some e) s)
      | Inr msg \<Rightarrow> (Inr msg, emit (MessagesCreate st req) None s))"

text \<open>\<^verbatim>\<open>fs.writeFileSync(path, data, 'utf8')\<close>: the file holds the data when the call returns.\<close>

definition fs_writeFileSync :: "env \<Rightarrow> string \<Rightarrow> string \<Rightarrow> unit action" where
  "fs_writeFileSync env path data s =
     (case writeFileSync env path data of
        Some e \<Rightarrow> (Inl e, emit (WriteFileSync path data) (Some e) s)
      | None \<Rightarrow> (Inr (), (emit (WriteFileSync path data) None s)\<lparr>files := (files s)(path \<mapsto> data)\<rparr>))"

definition page_close_call :: "env \<Rightarrow> unit action" where
  "page_close_call env s =
     (case page_close env of
        Some e \<Rightarrow> (Inl e, emit PageClose (Some e) s)
      | None \<Rightarrow> (Inr (), (emit PageClose None s)\<lparr>open_pages := open_pages s - 1\<rparr>))"

definition browser_close_call :: "env \<Rightarrow> unit action" where
  "browser_close_call env s =
     (case browser_close env of
        Some e \<Rightarrow> (Inl e, emit BrowserClose (Some e) s)
      | None \<Rightarrow> (Inr (), (emit BrowserClose None s)\<lparr>open_browsers := open_browsers s - 1\<rparr>))"

text \<open>\<^verbatim>\<open>msg.content[0].text\<close>: with no content block, \<^verbatim>\<open>content[0]\<close> is \<^verbatim>\<open>undefined\<close> and reading
  its \<^verbatim>\<open>text\<close> throws a TypeError.\<close>

definition undefined_text_error :: js_error where
  "undefined_text_error = Error ''TypeError'' ''Cannot read properties of undefined'' ''''"

definition content0_text :: "message \<Rightarrow> js_error + string" where
  "content0_text content = (case content of [] \<Rightarrow> Inl undefined_text_error | t # rest \<Rightarrow> Inr t)"

text \<open>\<^verbatim>\<open>String.prototype.trim\<close>, on the white space and line terminators below code 256.\<close>

definition isWhiteSpace :: "char \<Rightarrow> bool" where
  "isWhiteSpace c = (c \<in> set [CHR 0x09, CHR 0x0A, CHR 0x0B, CHR 0x0C, CHR 0x0D, CHR 0x20, CHR 0xA0])"

definition trim :: "string \<Rightarrow> string" where
  "trim s = rev (dropWhile isWhiteSpace (rev (dropWhile isWhiteSpace s)))"

subsection \<open>The prompts\<close>

text \<open>The fixed pieces of the four template literals, between their placeholders.\<close>

definition generator_extract_head :: string where
  \<open>generator_extract_head =
''Extract the html tags (<p> <input<button>, <div>, <form>, <label>, <textarea>, <select>, <a>, <img>, <span>, <h1>, <h2>, <h3>, <h4>, <h5>, <h6> ...etc) with its identifiers (e.g. id, test-id, class name, role, value, placeholder, text, name) for testing purposes with playwright automation testing for the {test-senario} on the following HTML. Strictly follow the {rules}. Make sure the response is valid JSON, nothing else.
          html: ''\<close>

definition generator_extract_middle :: string where
  \<open>generator_extract_middle =
''. 
          test-senario: ''\<close>

definition generator_extract_tail :: string where
  \<open>generator_extract_tail =
''.
          rules: 
            1. Only return the HTML tags and their identifiers that is needed for the playwright test. 
            2. Return the tags in the order they appear in the HTML. 
            3. Only return the required tags, nothing else.
            4. Return in JSON format. 

          example output:
          {
            "tags": [
              {
                "test_step": "search for the term "AI in healthcare"",
                "tag": "input",
                "id": "search",
                "class": "form-control",
                "required": true,
                "role": "button" || null,
                "value": "your search term" || null,
                "text": "your search term" || null,
                "name": "your search term" || null
              },
              {
                "test_step": "click the search button",
                "tag": "button",
                "id": "search-button",
                "class": "btn btn-primary",
                "required": true,
                "role": "button" || null,
                "value": "search" || null,
                "text": "Search" || null,
                "name": "search" || null
              }
            ]
          }''\<close>

definition generator_generate_head :: string where
  \<open>generator_generate_head =
''Generate Playwright test code based on the following {testingSenario} and {testingData}. Strictly follow the {rules}. You can use the {example output} as a reference.
        testing scenario: ''\<close>

definition generator_generate_middle :: string where
  \<open>generator_generate_middle =
''
        testing data: ''\<close>

definition generator_generate_tail :: string where
  \<open>generator_generate_tail =
''
        rules: 
          1. only return the code, nothing else. 
          2. the code should be valid playwright code. 
          3. the code should be able to run without errors. 
          4.  return the playwright code in a function.
          5. Code should be returned as valid Playwright JavaScript.
          6. Do not include any additional text, comments, or explanations before or after the code (for example, do not include "Here's the Playwright test code based on the provided testing scenario and data:" or any other introductory text).
          7. The code must be in a function format.
          8. Ensure that the code runs without errors.
          9. code should have all the needed imports.
          10. code should have the export keyword.
          11. The function should be named test.
          12. The function should be async.
        example output:
          "import { chromium } from 'playwright';
          export const test = async () => {
            const browser = await chromium.launch();
            const page = await browser.newPage();
            await page.goto('https://www.facebook.com');

            await page.fill('#email', 'your_email@example.com');
            await page.fill('#pass', 'your_password');
            await page.click('#u_0_5_9v');
          };"
        ''\<close>

definition tester_extract_head :: string where
  \<open>tester_extract_head =
''Extract the html tags (<p> <input<button>, <div>, <form>, <label>, <textarea>, <select>, <a>, <img>, <span>, <h1>, <h2>, <h3>, <h4>, <h5>, <h6> ...etc) with its identifiers (like ids, test ids, class names, roles, values, placeholders or whatever is needed) for testing purposes with playwright automation testing for the {test-senario} on the following HTML. Strictly follow the {rules}. Make sure the response is valid JSON, nothing else.
          html: ''\<close>

definition tester_extract_middle :: string where
  \<open>tester_extract_middle =
''. 
          test-senario: ''\<close>

definition tester_extract_tail :: string where
  \<open>tester_extract_tail =
''.
          rules: 1. Only return the HTML tags and their identifiers that is needed for the test. 2. Return in JSON format. 3. Return the tags in the order they appear in the HTML. 3. flag the tags that are required for the test to pass. 4. only return the required tages, nothing else.
          example output:
          {
            "tags": [
              {
                "test_step": "step 1",
                "tag": "input",
                "id": "username",
                "class": "form-control",
                "required": true
                "role": "input" || null,
                "value": "username" || null,
                "placeholder": "Enter your username" || null
              },
              {
                "test_step": "step 2",
                "tag": "button",
                "id": "submit",
                "class": "btn btn-primary",
                "required": true
                "role": "button" || null,
                "value": "Submit" || null,
              }
            ]
          }''\<close>

definition tester_generate_head :: string where
  \<open>tester_generate_head =
''Generate Playwright test code based on the following {testingSenario} and {testingData}. Strictly follow the {rules}.
        testing scenario: ''\<close>

definition tester_generate_middle :: string where
  \<open>tester_generate_middle =
''
        testing data: ''\<close>

definition tester_generate_tail :: string where
  \<open>tester_generate_tail =
''
        rules: 1. only return the code, nothing else. 2. the code should be valid playwright code. 3. the code should be able to run without errors. 4.  return the playwright code in a function.
        You should generate Playwright test code strictly following these rules:
        - Code should be returned as valid Playwright JavaScript.
        - Do not include any additional text, comments, or explanations before or after the code (for example, do not include "Here's the Playwright test code based on the provided testing scenario and data:" or any other introductory text).
        - The code must be in a function format.
        - Ensure that the code runs without errors.
        example output:
        const test = async () => {
          export const test = async () => {
            const page = await browser.newPage();
            ...more code
          }
        }
        ''\<close>

subsection \<open>The generator: \<^verbatim>\<open>src/test-generatior.ts\<close>\<close>

definition generator_extract_request :: "string \<Rightarrow> string \<Rightarrow> request" where
  "generator_extract_request bodyHtml testName =
     \<lparr>model = ''claude-3-5-sonnet-20240620'', max_tokens = 1000, temperature = 1 / 2,
      messages = [(''user'',
        generator_extract_head @ trim bodyHtml @ generator_extract_middle @ testName
          @ generator_extract_tail)]\<rparr>"

definition generator_generate_request :: "env \<Rightarrow> json \<Rightarrow> string \<Rightarrow> request" where
  "generator_generate_request env parsedData testSenario =
     \<lparr>model = ''claude-3-5-sonnet-20240620'', max_tokens = 1000, temperature = 1 / 2,
      messages = [(''user'',
        generator_generate_head @ testSenario @ generator_generate_middle
          @ JSON_stringify env parsedData @ generator_generate_tail)]\<rparr>"

definition generator_generatePlaywrightCode :: "env \<Rightarrow> json \<Rightarrow> string \<Rightarrow> unit action" where
  "generator_generatePlaywrightCode env parsedData testSenario =
     andThen (anthropic_messages_create env Generate
                (generator_generate_request env parsedData testSenario)) (\<lambda>msg.
     andThen (evaluated (content0_text msg)) (\<lambda>playwrightCode.
     andThen (console_log [''playwrightCode'', playwrightCode]) (\<lambda>u.
     andThen (fs_writeFileSync env ''src/test.ts'' playwrightCode) (\<lambda>u.
     console_log [''Playwright code saved to test.ts'']))))"

text \<open>The body of the \<^verbatim>\<open>try\<close>. The text of the first answer goes on as it is (a string).\<close>

definition generator_try :: "env \<Rightarrow> string \<Rightarrow> string \<Rightarrow> unit action" where
  "generator_try env url testName =
     andThen (chromium_launch env) (\<lambda>u.
     andThen assign_browser (\<lambda>u.
     andThen (browser_newPage env) (\<lambda>u.
     andThen assign_page (\<lambda>u.
     andThen (page_goto env url) (\<lambda>u.
     andThen (page_evaluate generator_selector env url) (\<lambda>bodyHtml.
     andThen (console_log [''bodyHtml'', bodyHtml]) (\<lambda>u.
     andThen (anthropic_messages_create env Extract
                (generator_extract_request bodyHtml testName)) (\<lambda>msg.
     andThen (evaluated (content0_text msg)) (\<lambda>contentText.
     generator_generatePlaywrightCode env (JString contentText) testName)))))))))"

text \<open>The \<^verbatim>\<open>catch\<close> and the \<^verbatim>\<open>finally\<close>, the same text in both scripts.\<close>

definition runTest_catch :: "js_error \<Rightarrow> unit action" where
  "runTest_catch error =
     (case error of
        Error name message stack \<Rightarrow> console_error ''Test failed:'' (Fields name message stack)
      | Thrown v \<Rightarrow> console_error ''Test failed:'' (Raw v))"

definition runTest_finally :: "env \<Rightarrow> unit action" where
  "runTest_finally env =
     andThen (\<lambda>s. if page s then page_close_call env s else (Inr (), s)) (\<lambda>u.
     (\<lambda>s. if browser s then browser_close_call env s else (Inr (), s)))"

text \<open>
  \<^verbatim>\<open>runTest\<close>: the result is how the promise settles (\<open>Inr ()\<close>: it resolves, \<open>Inl e\<close>: it
  rejects with \<open>e\<close>). The two local variables start as \<^verbatim>\<open>null\<close>.
\<close>

definition generator_runTest :: "env \<Rightarrow> string \<Rightarrow> string \<Rightarrow> unit action" where
  "generator_runTest env url testName s =
     try_catch_finally (generator_try env url testName) runTest_catch (runTest_finally env)
       (s\<lparr>browser := False, page := False\<rparr>)"

text \<open>The call at the end of the file.\<close>

definition generator_main :: "env \<Rightarrow> unit action" where
  \<open>generator_main env =
     generator_runTest env ''https://www.youtube.com/'' ''search for "AI in healthcare"''\<close>

subsection \<open>The tester: \<^verbatim>\<open>src/tester.ts\<close>\<close>

definition tester_extract_request :: "string \<Rightarrow> string \<Rightarrow> request" where
  "tester_extract_request bodyHtml testName =
     \<lparr>model = ''claude-3-haiku-20240307'', max_tokens = 1000, temperature = 1 / 2,
      messages = [(''user'',
        tester_extract_head @ bodyHtml @ tester_extract_middle @ testName
          @ tester_extract_tail)]\<rparr>"

definition tester_generate_request :: "env \<Rightarrow> json \<Rightarrow> string \<Rightarrow> request" where
  "tester_generate_request env parsedData testSenario =
     \<lparr>model = ''claude-3-haiku-20240307'', max_tokens = 1000, temperature = 1 / 2,
      messages = [(''user'',
        tester_generate_head @ testSenario @ tester_generate_middle
          @ JSON_stringify env parsedData @ tester_generate_tail)]\<rparr>"

definition tester_generatePlaywrightCode :: "env \<Rightarrow> json \<Rightarrow> string \<Rightarrow> unit action" where
  "tester_generatePlaywrightCode env parsedData testSenario =
     andThen (anthropic_messages_create env Generate
                (tester_generate_request env parsedData testSenario)) (\<lambda>msg.
     andThen (evaluated (content0_text msg)) (\<lambda>playwrightCode.
     andThen (console_log [''playwrightCode'', playwrightCode]) (\<lambda>u.
     andThen (fs_writeFileSync env ''src/test.ts'' playwrightCode) (\<lambda>u.
     console_log [''Playwright code saved to test.ts'']))))"

text \<open>The body of the \<^verbatim>\<open>try\<close>. The text of the first answer goes through \<^verbatim>\<open>JSON.parse\<close>.\<close>

definition tester_try :: "env \<Rightarrow> string \<Rightarrow> string \<Rightarrow> unit action" where
  "tester_try env url testName =
     andThen (chromium_launch env) (\<lambda>u.
     andThen assign_browser (\<lambda>u.
     andThen (browser_newPage env) (\<lambda>u.
     andThen assign_page (\<lambda>u.
     andThen (page_goto env url) (\<lambda>u.
     andThen (page_evaluate tester_selector env url) (\<lambda>bodyHtml.
     andThen (console_log [''bodyHtml'', bodyHtml]) (\<lambda>u.
     andThen (anthropic_messages_create env Extract
                (tester_extract_request bodyHtml testName)) (\<lambda>response.
     andThen (evaluated (content0_text response)) (\<lambda>contentText.
     andThen (evaluated (JSON_parse env contentText)) (\<lambda>parsedData.
     tester_generatePlaywrightCode env parsedData testName))))))))))"

definition tester_runTest :: "env \<Rightarrow> string \<Rightarrow> string \<Rightarrow> unit action" where
  "tester_runTest env url testName s =
     try_catch_finally (tester_try env url testName) runTest_catch (runTest_finally env)
       (s\<lparr>browser := False, page := False\<rparr>)"

definition tester_main :: "env \<Rightarrow> unit action" where
  "tester_main env = tester_runTest env ''https://www.facebook.com'' ''login to facebook''"

section \<open>The regular-expression filters of \<^verbatim>\<open>src/playwrite_test_auto-1.md\<close>\<close>

text \<open>
  \<^verbatim>\<open>sanitizeHTML\<close> and \<^verbatim>\<open>filterHTML\<close> work on the HTML text with regular expressions.
  None of the patterns looks behind the position where a match starts, so a pattern is
  modelled by its matcher at the start of a string: \<open>Some rest\<close> when the pattern matches
  a prefix of the string, with \<open>rest\<close> what follows the match the backtracking engine finds.
\<close>

subsection \<open>Pieces of patterns\<close>

text \<open>The flag \<^verbatim>\<open>i\<close>: letters compare without case. The patterns hold ASCII letters only.\<close>

definition toLower :: "char \<Rightarrow> char" where
  "toLower c = (if 65 \<le> (of_char c :: nat) \<and> (of_char c :: nat) \<le> 90
                then char_of ((of_char c :: nat) + 32) else c)"

text \<open>A literal piece of a pattern at the start of the subject, without case.\<close>

fun literal :: "string \<Rightarrow> string \<Rightarrow> string option" where
  "literal [] s = Some s"
| "literal (p # ps) [] = None"
| "literal (p # ps) (c # cs) = (if toLower c = toLower p then literal ps cs else None)"

text \<open>
  \<^verbatim>\<open>[^>]*>\<close>: the greedy run stops before the first \<^verbatim>\<open>>\<close>, which the pattern then takes;
  without one there is no match.
\<close>

fun upToGt :: "string \<Rightarrow> string option" where
  "upToGt [] = None"
| "upToGt (c # cs) = (if c = CHR ''>'' then Some cs else upToGt cs)"

text \<open>\<^verbatim>\<open>[\s\S]*?\<close> followed by a literal: the lazy run stops at the first place where the
  literal matches.\<close>

fun lazyUntil :: "string \<Rightarrow> string \<Rightarrow> string option" where
  "lazyUntil p [] = literal p []"
| "lazyUntil p (c # cs) =
     (case literal p (c # cs) of Some rest \<Rightarrow> Some rest | None \<Rightarrow> lazyUntil p cs)"

text \<open>\<^verbatim>\<open>\w\<close>: a letter, a digit or the underscore.\<close>

definition isWordChar :: "char \<Rightarrow> bool" where
  "isWordChar c =
     ((48 \<le> (of_char c :: nat) \<and> (of_char c :: nat) \<le> 57)
      \<or> (65 \<le> (of_char c :: nat) \<and> (of_char c :: nat) \<le> 90)
      \<or> (of_char c :: nat) = 95
      \<or> (97 \<le> (of_char c :: nat) \<and> (of_char c :: nat) \<le> 122))"

subsection \<open>The five patterns of \<^verbatim>\<open>sanitizeHTML\<close>\<close>

text \<open>\<^verbatim>\<open>/<tag[^>]*>[\s\S]*?<\/tag>/gi\<close> for \<^verbatim>\<open>script\<close>, \<^verbatim>\<open>style\<close> and \<^verbatim>\<open>svg\<close>.\<close>

definition matchElement :: "string \<Rightarrow> string \<Rightarrow> string option" where
  "matchElement tag s =
     (case literal (''<'' @ tag) s of
        None \<Rightarrow> None
      | Some r1 \<Rightarrow>
          (case upToGt r1 of
             None \<Rightarrow> None
           | Some r2 \<Rightarrow> lazyUntil (''</'' @ tag @ ''>'') r2))"

text \<open>\<^verbatim>\<open>["']\<close>: one quote character.\<close>

definition isQuote :: "char \<Rightarrow> bool" where
  "isQuote q = (q = CHR 0x22 \<or> q = CHR 0x27)"

definition quote :: "string \<Rightarrow> string option" where
  "quote s = (case s of [] \<Rightarrow> None | q # rest \<Rightarrow> if isQuote q then Some rest else None)"

text \<open>\<^verbatim>\<open>rel=["']stylesheet["']\<close> at the start of the subject.\<close>

definition relStylesheet :: "string \<Rightarrow> bool" where
  "relStylesheet s =
     (case literal ''rel='' s of
        None \<Rightarrow> False
      | Some r1 \<Rightarrow>
          (case quote r1 of
             None \<Rightarrow> False
           | Some r2 \<Rightarrow>
               (case literal ''stylesheet'' r2 of
                  None \<Rightarrow> False
                | Some r3 \<Rightarrow> quote r3 \<noteq> None)))"

fun containsRelStylesheet :: "string \<Rightarrow> bool" where
  "containsRelStylesheet [] = False"
| "containsRelStylesheet (c # cs) = (relStylesheet (c # cs) \<or> containsRelStylesheet cs)"

text \<open>
  \<^verbatim>\<open>/<link[^>]*rel=["']stylesheet["'][^>]*>/gi\<close>: no part of the pattern before its last
  character can take a \<^verbatim>\<open>>\<close>, so a match ends at the first \<^verbatim>\<open>>\<close> after \<^verbatim>\<open><link\<close>, and there
  is one when the text up to that \<^verbatim>\<open>>\<close> holds the \<^verbatim>\<open>rel\<close> attribute.
\<close>

definition matchLink :: "string \<Rightarrow> string option" where
  "matchLink s =
     (case literal ''<link'' s of
        None \<Rightarrow> None
      | Some r1 \<Rightarrow>
          (if containsRelStylesheet (takeWhile (\<lambda>c. c \<noteq> CHR ''>'') r1) then upToGt r1
           else None))"

text \<open>\<^verbatim>\<open>/<meta[^>]*>/gi\<close>.\<close>

definition matchMeta :: "string \<Rightarrow> string option" where
  "matchMeta s = (case literal ''<meta'' s of None \<Rightarrow> None | Some r1 \<Rightarrow> upToGt r1)"

subsection \<open>\<^verbatim>\<open>replace\<close> with a global pattern and the empty replacement\<close>

text \<open>
  The search goes from left to right: at the leftmost position with a match the match is
  dropped and the search goes on behind it; where nothing matches the character is kept.
  After an empty match JavaScript moves on by one character and keeps it, which is the
  second branch of the test below (none of the five patterns matches the empty string).
\<close>

function replaceAll :: "(string \<Rightarrow> string option) \<Rightarrow> string \<Rightarrow> string" where
  "replaceAll m [] = []"
| "replaceAll m (c # cs) =
     (case m (c # cs) of
        None \<Rightarrow> c # replaceAll m cs
      | Some rest \<Rightarrow>
          (if length rest < length (c # cs) then replaceAll m rest else c # replaceAll m cs))"
  by pat_completeness auto
termination
  by (relation "measure (\<lambda>(m, s). length s)") auto


text \<open>A matcher never returns more than it was given, and a match is not empty.\<close>

definition proper :: "(string \<Rightarrow> string option) \<Rightarrow> bool" where
  "proper m = (\<forall>s rest. m s = Some rest \<longrightarrow> length rest < length s)"

text \<open>A pattern matches somewhere in a string.\<close>

fun matchesIn :: "(string \<Rightarrow> string option) \<Rightarrow> string \<Rightarrow> bool" where
  "matchesIn m [] = False"
| "matchesIn m (c # cs) = (m (c # cs) \<noteq> None \<or> matchesIn m cs)"


subsection \<open>\<^verbatim>\<open>filterHTML\<close>\<close>

text \<open>
  A \<^verbatim>\<open>RegExp\<close> object as \<^verbatim>\<open>test\<close> uses it: \<open>search i s\<close> is the end of the leftmost match in
  \<open>s\<close> that starts at index \<open>i\<close> or later, \<open>global\<close> is the flag \<^verbatim>\<open>g\<close>, and \<open>lastIndex\<close> is the
  property of that name, which \<^verbatim>\<open>test\<close> reads and writes when the flag is set.
\<close>

record regexp =
  search :: "nat \<Rightarrow> string \<Rightarrow> nat option"
  global :: bool
  lastIndex :: nat

definition regexp_test :: "regexp \<Rightarrow> string \<Rightarrow> bool \<times> regexp" where
  "regexp_test r str =
     (if global r then
        (if length str < lastIndex r then (False, r\<lparr>lastIndex := 0\<rparr>)
         else (case search r (lastIndex r) str of
                 None \<Rightarrow> (False, r\<lparr>lastIndex := 0\<rparr>)
               | Some e \<Rightarrow> (True, r\<lparr>lastIndex := e\<rparr>)))
      else (search r 0 str \<noteq> None, r))"

text \<open>\<^verbatim>\<open>criteria.some((criterion) => criterion.test(str))\<close>: in order, up to the first success.\<close>

fun some_test :: "regexp list \<Rightarrow> string \<Rightarrow> bool \<times> regexp list" where
  "some_test [] str = (False, [])"
| "some_test (r # rs) str =
     (case regexp_test r str of
        (True, r') \<Rightarrow> (True, r' # rs)
      | (False, r') \<Rightarrow> (case some_test rs str of (b, rs') \<Rightarrow> (b, r' # rs')))"

text \<open>The search of a pattern given by its matcher: the end of the leftmost match.\<close>

fun firstMatchEnd :: "(string \<Rightarrow> string option) \<Rightarrow> string \<Rightarrow> nat option" where
  "firstMatchEnd m [] = (case m [] of None \<Rightarrow> None | Some rest \<Rightarrow> Some 0)"
| "firstMatchEnd m (c # cs) =
     (case m (c # cs) of
        Some rest \<Rightarrow> Some (length (c # cs) - length rest)
      | None \<Rightarrow> map_option Suc (firstMatchEnd m cs))"

definition searchFrom :: "(string \<Rightarrow> string option) \<Rightarrow> nat \<Rightarrow> string \<Rightarrow> nat option" where
  "searchFrom m i s = map_option (\<lambda>e. i + e) (firstMatchEnd m (drop i s))"

text \<open>
  The default criterion
  \<^verbatim>\<open>/<(input|button|select|textarea|a|form|div|span|label|h[1-6])\b[^>]*>/gi\<close>.
  The alternatives are tried in order. Each ends in a word character, so \<^verbatim>\<open>\b\<close> holds
  behind it when no word character follows; then \<^verbatim>\<open>[^>]*>\<close> needs a \<^verbatim>\<open>>\<close>.
\<close>

definition tagNames :: "string list" where
  "tagNames = [''input'', ''button'', ''select'', ''textarea'', ''a'', ''form'', ''div'',
     ''span'', ''label'']"

definition heading :: "string \<Rightarrow> string option" where
  "heading s =
     (case literal ''h'' s of
        None \<Rightarrow> None
      | Some [] \<Rightarrow> None
      | Some (d # rest) \<Rightarrow> if d \<in> set ''123456'' then Some rest else None)"

definition boundaryThenGt :: "string \<Rightarrow> string option" where
  "boundaryThenGt s =
     (case s of [] \<Rightarrow> None | c # cs \<Rightarrow> if isWordChar c then None else upToGt (c # cs))"

fun firstAlternative :: "(string \<Rightarrow> string option) list \<Rightarrow> string \<Rightarrow> string option" where
  "firstAlternative [] s = None"
| "firstAlternative (alt # alts) s =
     (case (case alt s of None \<Rightarrow> None | Some r \<Rightarrow> boundaryThenGt r) of
        Some rest \<Rightarrow> Some rest
      | None \<Rightarrow> firstAlternative alts s)"

definition matchDefault :: "string \<Rightarrow> string option" where
  "matchDefault s =
     (case s of
        [] \<Rightarrow> None
      | c # cs \<Rightarrow>
          if c = CHR ''<'' then firstAlternative (map literal tagNames @ [heading]) cs
          else None)"

definition defaultCriteria :: "regexp list" where
  "defaultCriteria = [\<lparr>search = searchFrom matchDefault, global = True, lastIndex = 0\<rparr>]"

text \<open>
  The tokenizer \<^verbatim>\<open>/<(\/?)(\w+)([^>]*)>/gi\<close> at the start of a string: the three groups and
  what follows the match.
\<close>

definition matchTag :: "string \<Rightarrow> (string \<times> string \<times> string \<times> string) option" where
  "matchTag s =
     (case s of
        [] \<Rightarrow> None
      | c # r0 \<Rightarrow>
          if c \<noteq> CHR ''<'' then None
          else
            (let closingSlash = (if r0 \<noteq> [] \<and> hd r0 = CHR ''/'' then ''/'' else '''');
                 r1 = (if closingSlash = [] then r0 else tl r0);
                 tagName = takeWhile isWordChar r1;
                 r2 = dropWhile isWordChar r1
             in if tagName = [] then None
                else (case upToGt r2 of
                        None \<Rightarrow> None
                      | Some rest \<Rightarrow>
                          Some (closingSlash, tagName, takeWhile (\<lambda>c. c \<noteq> CHR ''>'') r2, rest))))"

text \<open>
  The \<^verbatim>\<open>while ((match = regex.exec(html)) !== null)\<close> loop from the current \<^verbatim>\<open>lastIndex\<close> of
  the tokenizer on: the tags pushed to \<^verbatim>\<open>filteredParts\<close>. The criteria keep their
  \<^verbatim>\<open>lastIndex\<close> from one tag to the next.
\<close>

function filteredParts :: "regexp list \<Rightarrow> string \<Rightarrow> string list" where
  "filteredParts criteria [] = []"
| "filteredParts criteria (c # cs) =
     (case matchTag (c # cs) of
        None \<Rightarrow> filteredParts criteria cs
      | Some (closingSlash, tagName, attributes, rest) \<Rightarrow>
          (case some_test criteria (''<'' @ closingSlash @ tagName) of
             (isRelevant, criteria') \<Rightarrow>
               (if isRelevant then [''<'' @ closingSlash @ tagName @ attributes @ ''>'']
                else []) @ filteredParts criteria' rest))"
  by pat_completeness auto

termination
proof -
  have gt: "upToGt r = Some rest \<Longrightarrow> length rest < length r" for r rest
    by (induction r) (auto split: if_splits)
  have shorter: "length rest < length (c # cs)"
    if m: "matchTag (c # cs) = Some (closingSlash, tagName, attributes, rest)"
    for c cs closingSlash tagName attributes rest
  proof -
    define r1 where "r1 = (if cs \<noteq> [] \<and> hd cs = CHR ''/'' then tl cs else cs)"
    have "upToGt (dropWhile isWordChar r1) = Some rest"
      using m unfolding matchTag_def r1_def
      by (auto simp: Let_def split: if_splits option.splits)
    then have "length rest < length (dropWhile isWordChar r1)"
      by (rule gt)
    also have "\<dots> \<le> length r1"
      by (rule length_dropWhile_le)
    also have "\<dots> \<le> length cs"
      by (simp add: r1_def)
    finally show ?thesis by simp
  qed
  show ?thesis
    by (relation "measure (\<lambda>(criteria, s). length s)") (auto dest: shorter)
qed

text \<open>\<^verbatim>\<open>Array.prototype.join\<close>.\<close>

fun join :: "string \<Rightarrow> string list \<Rightarrow> string" where
  "join sep [] = []"
| "join sep [x] = x"
| "join sep (x # y # ys) = x @ sep @ join sep (y # ys)"

definition filterHTML :: "string \<Rightarrow> regexp list \<Rightarrow> string" where
  "filterHTML html criteria =
     join [CHR 0x0A]
       (filteredParts (if length criteria = 0 then defaultCriteria else criteria) html)"

section \<open>Both scripts at once, and the vocabulary of the properties\<close>

text \<open>
  The two scripts differ in the selector, in the two requests and in whether the first
  answer is parsed. The properties below are stated for both through this parameter.
\<close>

datatype script = Generator | Tester

definition try_of :: "script \<Rightarrow> env \<Rightarrow> string \<Rightarrow> string \<Rightarrow> unit action" where
  "try_of v = (case v of Generator \<Rightarrow> generator_try | Tester \<Rightarrow> tester_try)"

definition runTest :: "script \<Rightarrow> env \<Rightarrow> string \<Rightarrow> string \<Rightarrow> unit action" where
  "runTest v = (case v of Generator \<Rightarrow> generator_runTest | Tester \<Rightarrow> tester_runTest)"

definition selector_of :: "script \<Rightarrow> string list" where
  "selector_of v = (case v of Generator \<Rightarrow> generator_selector | Tester \<Rightarrow> tester_selector)"

definition extract_request_of :: "script \<Rightarrow> string \<Rightarrow> string \<Rightarrow> request" where
  "extract_request_of v =
     (case v of Generator \<Rightarrow> generator_extract_request | Tester \<Rightarrow> tester_extract_request)"

definition generate_request_of :: "script \<Rightarrow> env \<Rightarrow> json \<Rightarrow> string \<Rightarrow> request" where
  "generate_request_of v =
     (case v of Generator \<Rightarrow> generator_generate_request | Tester \<Rightarrow> tester_generate_request)"

text \<open>What \<^verbatim>\<open>generatePlaywrightCode\<close> receives for the text of the first answer.\<close>

definition parsed_of :: "script \<Rightarrow> env \<Rightarrow> string \<Rightarrow> js_error + json" where
  "parsed_of v env contentText =
     (case v of Generator \<Rightarrow> Inr (JString contentText) | Tester \<Rightarrow> JSON_parse env contentText)"

text \<open>The path both scripts write to.\<close>

definition target :: string where
  "target = ''src/test.ts''"

text \<open>What the \<^verbatim>\<open>catch\<close> logs for an error.\<close>

definition logged_of :: "js_error \<Rightarrow> logged" where
  "logged_of e =
     (case e of Error name message stack \<Rightarrow> Fields name message stack | Thrown v \<Rightarrow> Raw v)"

subsection \<open>Reading a trace\<close>

text \<open>How many events of a trace are calls of a kind.\<close>

definition calls :: "(call \<Rightarrow> bool) \<Rightarrow> event list \<Rightarrow> nat" where
  "calls P tr = length (filter (\<lambda>ev. P (fst ev)) tr)"

text \<open>Kinds of calls: a given call; a \<^verbatim>\<open>messages.create\<close> of a stage; a navigation; a
  write.\<close>

definition isCall :: "call \<Rightarrow> call \<Rightarrow> bool" where
  "isCall c c' = (c' = c)"

fun isCreate :: "stage \<Rightarrow> call \<Rightarrow> bool" where
  "isCreate st (MessagesCreate st' req) = (st' = st)"
| "isCreate st c = False"

fun isGoto :: "call \<Rightarrow> bool" where
  "isGoto (Goto url) = True"
| "isGoto c = False"

fun isWrite :: "call \<Rightarrow> bool" where
  "isWrite (WriteFileSync path data) = True"
| "isWrite c = False"

text \<open>The calls of the \<^verbatim>\<open>catch\<close> and the \<^verbatim>\<open>finally\<close>.\<close>

fun isCleanup :: "call \<Rightarrow> bool" where
  "isCleanup (ConsoleError label item) = True"
| "isCleanup PageClose = True"
| "isCleanup BrowserClose = True"
| "isCleanup c = False"

text \<open>An event is a call of a kind that returned; an event is a call of a kind.\<close>

definition returned :: "(call \<Rightarrow> bool) \<Rightarrow> event \<Rightarrow> bool" where
  "returned P ev = (P (fst ev) \<and> snd ev = None)"

definition called :: "(call \<Rightarrow> bool) \<Rightarrow> event \<Rightarrow> bool" where
  "called P ev = P (fst ev)"

text \<open>How many calls of a kind returned.\<close>

definition returns :: "(call \<Rightarrow> bool) \<Rightarrow> event list \<Rightarrow> nat" where
  "returns P tr = length (filter (returned P) tr)"

text \<open>Every \<open>Q\<close> event of the trace has a \<open>P\<close> event before it.\<close>

fun precedes :: "(event \<Rightarrow> bool) \<Rightarrow> (event \<Rightarrow> bool) \<Rightarrow> event list \<Rightarrow> bool" where
  "precedes P Q [] = True"
| "precedes P Q (ev # evs) = (\<not> Q ev \<and> (P ev \<or> precedes P Q evs))"

text \<open>After the first call that threw, the trace holds calls of the \<^verbatim>\<open>catch\<close> and the
  \<^verbatim>\<open>finally\<close> only.\<close>

fun quietAfterFailure :: "event list \<Rightarrow> bool" where
  "quietAfterFailure [] = True"
| "quietAfterFailure ((c, None) # evs) = quietAfterFailure evs"
| "quietAfterFailure ((c, Some e) # evs) = list_all (\<lambda>ev. isCleanup (fst ev)) evs"

text \<open>What a run shows of its text transform: what it logs, what it sends to the LLM and
  what it writes.\<close>

fun isOutput :: "call \<Rightarrow> bool" where
  "isOutput (ConsoleLog items) = True"
| "isOutput (MessagesCreate st req) = True"
| "isOutput (WriteFileSync path data) = True"
| "isOutput c = False"

definition outputs :: "event list \<Rightarrow> call list" where
  "outputs tr = filter isOutput (map fst tr)"

text \<open>The data of the first \<^verbatim>\<open>writeFileSync\<close> among some calls.\<close>

definition written :: "call list \<Rightarrow> string option" where
  "written cs =
     (case filter isWrite cs of WriteFileSync path data # rest \<Rightarrow> Some data | _ \<Rightarrow> None)"

subsection \<open>The events of a run, by how far it gets\<close>

definition bodyHtml_of :: "script \<Rightarrow> env \<Rightarrow> node \<Rightarrow> string" where
  "bodyHtml_of v env b = innerHTML env (sanitizedBody (selector_of v) b)"

definition extract_call :: "script \<Rightarrow> env \<Rightarrow> string \<Rightarrow> node \<Rightarrow> call" where
  "extract_call v env testName b =
     MessagesCreate Extract (extract_request_of v (bodyHtml_of v env b) testName)"

definition generate_call :: "script \<Rightarrow> env \<Rightarrow> string \<Rightarrow> json \<Rightarrow> call" where
  "generate_call v env testName d = MessagesCreate Generate (generate_request_of v env d testName)"

definition navigated :: "string \<Rightarrow> event list" where
  "navigated url = [(Launch, None), (NewPage, None), (Goto url, None)]"

definition captured :: "script \<Rightarrow> env \<Rightarrow> string \<Rightarrow> node \<Rightarrow> event list" where
  "captured v env url b =
     navigated url @ [(Evaluate, None), (ConsoleLog [''bodyHtml'', bodyHtml_of v env b], None)]"

definition extracted :: "script \<Rightarrow> env \<Rightarrow> string \<Rightarrow> string \<Rightarrow> node \<Rightarrow> event list" where
  "extracted v env url testName b = captured v env url b @ [(extract_call v env testName b, None)]"

definition generated :: "script \<Rightarrow> env \<Rightarrow> string \<Rightarrow> string \<Rightarrow> node \<Rightarrow> json \<Rightarrow> event list" where
  "generated v env url testName b d =
     extracted v env url testName b @ [(generate_call v env testName d, None)]"

definition logged_code ::
  "script \<Rightarrow> env \<Rightarrow> string \<Rightarrow> string \<Rightarrow> node \<Rightarrow> json \<Rightarrow> string \<Rightarrow> event list" where
  "logged_code v env url testName b d code =
     generated v env url testName b d @ [(ConsoleLog [''playwrightCode'', code], None)]"

definition completed ::
  "script \<Rightarrow> env \<Rightarrow> string \<Rightarrow> string \<Rightarrow> node \<Rightarrow> json \<Rightarrow> string \<Rightarrow> event list" where
  "completed v env url testName b d code =
     logged_code v env url testName b d code
       @ [(WriteFileSync target code, None),
          (ConsoleLog [''Playwright code saved to test.ts''], None)]"

text \<open>The state after some events, with the browser and the page open or not.\<close>

definition advanced :: "state \<Rightarrow> event list \<Rightarrow> bool \<Rightarrow> bool \<Rightarrow> state" where
  "advanced s evs b p =
     s\<lparr>trace := trace s @ evs, browser := (b \<or> browser s), page := (p \<or> page s),
       open_browsers := (if b then Suc (open_browsers s) else open_browsers s),
       open_pages := (if p then Suc (open_pages s) else open_pages s)\<rparr>"

text \<open>
  The outputs of a run in which no collaborator but the page and the LLM fails: a function
  of the page, of the two answers and of the built-in functions.
\<close>

definition transcript :: "script \<Rightarrow> env \<Rightarrow> string \<Rightarrow> string \<Rightarrow> call list" where
  "transcript v env url testName =
     (case document_body env url of
        None \<Rightarrow> []
      | Some b \<Rightarrow>
          [ConsoleLog [''bodyHtml'', bodyHtml_of v env b], extract_call v env testName b] @
          (case messages_create env Extract
                  (extract_request_of v (bodyHtml_of v env b) testName) of
             Inl e \<Rightarrow> []
           | Inr [] \<Rightarrow> []
           | Inr (t # rest) \<Rightarrow>
               (case parsed_of v env t of
                  Inl e \<Rightarrow> []
                | Inr d \<Rightarrow>
                    generate_call v env testName d #
                    (case messages_create env Generate (generate_request_of v env d testName) of
                       Inl e \<Rightarrow> []
                     | Inr [] \<Rightarrow> []
                     | Inr (code # rest') \<Rightarrow>
                         [ConsoleLog [''playwrightCode'', code], WriteFileSync target code,
                          ConsoleLog [''Playwright code saved to test.ts'']]))))"

subsection \<open>A sample world\<close>

text \<open>
  One concrete outside world, to run the scripts on: a page, a plain serializer (tags,
  attributes and text with no escaping), fixed answers of the LLM, and stand-ins for
  \<^verbatim>\<open>JSON.parse\<close> (it accepts one text) and \<^verbatim>\<open>JSON.stringify\<close>.
\<close>

definition sample_body :: node where
  "sample_body =
     Element ''body'' [(''class'', ''home''), (''style'', ''margin:0'')]
       [Element ''meta'' [(''charset'', ''utf-8'')] [],
        Element ''script'' [] [Text ''track()''],
        Element ''form'' [(''id'', ''search'')]
          [Element ''input'' [(''name'', ''q''), (''style'', ''width:9em'')] [],
           Element ''button'' [] [Element ''svg'' [] [], Text ''Go'']]]"

fun sample_outerHTML :: "node \<Rightarrow> string" where
  "sample_outerHTML (Text t) = t"
| "sample_outerHTML (Comment t) = ''<!--'' @ t @ ''-->''"
| "sample_outerHTML (Element tag attrs children) =
     ''<'' @ tag @ concat (map (\<lambda>a. '' '' @ fst a @ ''='' @ snd a) attrs) @ ''>''
       @ concat (map sample_outerHTML children) @ ''</'' @ tag @ ''>''"

fun sample_innerHTML :: "node \<Rightarrow> string" where
  "sample_innerHTML (Element tag attrs children) = concat (map sample_outerHTML children)"
| "sample_innerHTML n = []"

definition sample_extract_answer :: string where
  \<open>sample_extract_answer = ''{"tags": []}''\<close>

definition sample_code :: string where
  "sample_code = ''export const test = async () => {};''"

definition sample_llm :: "stage \<Rightarrow> request \<Rightarrow> js_error + message" where
  "sample_llm st req = (case st of Extract \<Rightarrow> Inr [sample_extract_answer] | Generate \<Rightarrow> Inr [sample_code])"

definition syntax_error :: js_error where
  "syntax_error = Error ''SyntaxError'' ''Unexpected token'' ''''"

definition sample_parse :: "string \<Rightarrow> js_error + json" where
  "sample_parse s =
     (if s = sample_extract_answer then Inr (JObject [(''tags'', JArray [])]) else Inl syntax_error)"

definition sample_stringify :: "json \<Rightarrow> string" where
  \<open>sample_stringify j = (case j of JString t \<Rightarrow> ''"'' @ t @ ''"'' | _ \<Rightarrow> ''{"tags":[]}'')\<close>

definition sample_env :: env where
  "sample_env =
     \<lparr>launch = None, newPage = None, goto = (\<lambda>url. None),
      document_body = (\<lambda>url. Some sample_body), evaluate_fault = None,
      innerHTML = sample_innerHTML, messages_create = sample_llm,
      JSON_parse = sample_parse, JSON_stringify = sample_stringify,
      writeFileSync = (\<lambda>path data. None), page_close = None, browser_close = None\<rparr>"

definition timeout_error :: js_error where
  "timeout_error = Error ''TimeoutError'' ''Timeout 30000ms exceeded'' ''''"

definition closed_error :: js_error where
  "closed_error = Error ''Error'' ''Protocol error: connection lost'' ''''"

text \<open>The sample world with one collaborator failing: the navigation, the launch, the
  closing of the page.\<close>

definition nav_fails :: env where
  "nav_fails = sample_env\<lparr>goto := (\<lambda>url. Some timeout_error)\<rparr>"

definition launch_fails :: env where
  "launch_fails = sample_env\<lparr>launch := Some timeout_error\<rparr>"

definition close_fails :: env where
  "close_fails = sample_env\<lparr>page_close := Some closed_error\<rparr>"

text \<open>The sample world with an LLM that answers the first request in prose, and a
  \<^verbatim>\<open>JSON.parse\<close> that rejects it.\<close>

definition prose_answer :: string where
  "prose_answer = ''Here are the tags you asked for: input, button''"

definition prose_llm :: "stage \<Rightarrow> request \<Rightarrow> js_error + message" where
  "prose_llm st req = (case st of Extract \<Rightarrow> Inr [prose_answer] | Generate \<Rightarrow> Inr [sample_code])"

definition prose_env :: env where
  "prose_env = sample_env\<lparr>messages_create := prose_llm\<rparr>"

text \<open>The arguments of the call at the end of \<^verbatim>\<open>src/tester.ts\<close>.\<close>

definition sample_url :: string where
  "sample_url = ''https://www.facebook.com''"

definition sample_name :: string where
  "sample_name = ''login to facebook''"

text \<open>What \<^verbatim>\<open>generatePlaywrightCode\<close> receives in the sample world.\<close>

definition sample_parsed :: "script \<Rightarrow> json" where
  "sample_parsed v =
     (case v of Generator \<Rightarrow> JString sample_extract_answer
      | Tester \<Rightarrow> JObject [(''tags'', JArray [])])"

section \<open>Properties of the DOM clean-up\<close>







section \<open>The runs of the two scripts, case by case\<close>

lemma andThen_evaluated [simp]:
  "andThen (evaluated r) f s = (case r of Inl e \<Rightarrow> (Inl e, s) | Inr x \<Rightarrow> f x s)"
  by (simp add: andThen_def evaluated_def split: sum.split)

lemma andThen_parsed_Generator:
  "andThen (evaluated (parsed_of Generator env contentText)) f = f (JString contentText)"
  by (rule ext) (simp add: parsed_of_def)

lemma parsed_Tester: "parsed_of Tester env contentText = JSON_parse env contentText"
  by (simp add: parsed_of_def)

lemma try_of_unfold:
  "try_of v env url testName =
     andThen (chromium_launch env) (\<lambda>u.
     andThen assign_browser (\<lambda>u.
     andThen (browser_newPage env) (\<lambda>u.
     andThen assign_page (\<lambda>u.
     andThen (page_goto env url) (\<lambda>u.
     andThen (page_evaluate (selector_of v) env url) (\<lambda>bodyHtml.
     andThen (console_log [''bodyHtml'', bodyHtml]) (\<lambda>u.
     andThen (anthropic_messages_create env Extract (extract_request_of v bodyHtml testName)) (\<lambda>msg.
     andThen (evaluated (content0_text msg)) (\<lambda>contentText.
     andThen (evaluated (parsed_of v env contentText)) (\<lambda>parsedData.
     andThen (anthropic_messages_create env Generate (generate_request_of v env parsedData testName)) (\<lambda>msg.
     andThen (evaluated (content0_text msg)) (\<lambda>playwrightCode.
     andThen (console_log [''playwrightCode'', playwrightCode]) (\<lambda>u.
     andThen (fs_writeFileSync env ''src/test.ts'' playwrightCode) (\<lambda>u.
     console_log [''Playwright code saved to test.ts'']))))))))))))))"
proof (cases v)
  case Generator
  show ?thesis
    unfolding Generator
    by (simp only: try_of_def script.case generator_try_def generator_generatePlaywrightCode_def
      selector_of_def extract_request_of_def generate_request_of_def andThen_parsed_Generator)
next
  case Tester
  show ?thesis
    unfolding Tester
    by (simp only: try_of_def script.case tester_try_def tester_generatePlaywrightCode_def
      selector_of_def extract_request_of_def generate_request_of_def parsed_Tester)
qed


lemma andThen_launch:
  "andThen (chromium_launch env) f s =
     (case launch env of
        Some e \<Rightarrow> (Inl e, advanced s [(Launch, Some e)] False False)
      | None \<Rightarrow> f () (advanced s [(Launch, None)] False False\<lparr>open_browsers := Suc (open_browsers s)\<rparr>))"
  by (simp add: andThen_def chromium_launch_def emit_def advanced_def split: option.split)

lemma andThen_assign_browser: "andThen assign_browser f s = f () (s\<lparr>browser := True\<rparr>)"
  by (simp add: andThen_def assign_browser_def)

lemma andThen_newPage:
  "andThen (browser_newPage env) f s =
     (case newPage env of
        Some e \<Rightarrow> (Inl e, emit NewPage (Some e) s)
      | None \<Rightarrow> f () ((emit NewPage None s)\<lparr>open_pages := Suc (open_pages s)\<rparr>))"
  by (simp add: andThen_def browser_newPage_def split: option.split)

lemma andThen_assign_page: "andThen assign_page f s = f () (s\<lparr>page := True\<rparr>)"
  by (simp add: andThen_def assign_page_def)

lemma andThen_goto:
  "andThen (page_goto env url) f s =
     (case goto env url of
        Some e \<Rightarrow> (Inl e, emit (Goto url) (Some e) s)
      | None \<Rightarrow> f () (emit (Goto url) None s))"
  by (simp add: andThen_def page_goto_def split: option.split)

lemma andThen_evaluate:
  "andThen (page_evaluate sel env url) f s =
     (case evaluate_fault env of
        Some e \<Rightarrow> (Inl e, emit Evaluate (Some e) s)
      | None \<Rightarrow>
          (case document_body env url of
             None \<Rightarrow> (Inl null_body_error, emit Evaluate (Some null_body_error) s)
           | Some b \<Rightarrow> f (innerHTML env (sanitizedBody sel b)) (emit Evaluate None s)))"
  by (simp add: andThen_def page_evaluate_def captureBodyHtml_def split: option.split)

lemma andThen_console_log:
  "andThen (console_log items) f s = f () (emit (ConsoleLog items) None s)"
  by (simp add: andThen_def console_log_def)

lemma andThen_create:
  "andThen (anthropic_messages_create env st req) f s =
     (case messages_create env st req of
        Inl e \<Rightarrow> (Inl e, emit (MessagesCreate st req) (Some e) s)
      | Inr msg \<Rightarrow> f msg (emit (MessagesCreate st req) None s))"
  by (simp add: andThen_def anthropic_messages_create_def split: sum.split)

lemma andThen_write:
  "andThen (fs_writeFileSync env path data) f s =
     (case writeFileSync env path data of
        Some e \<Rightarrow> (Inl e, emit (WriteFileSync path data) (Some e) s)
      | None \<Rightarrow> f () ((emit (WriteFileSync path data) None s)\<lparr>files := (files s)(path \<mapsto> data)\<rparr>))"
  by (simp add: andThen_def fs_writeFileSync_def split: option.split)

lemmas steps = try_of_unfold andThen_launch andThen_assign_browser andThen_newPage
  andThen_assign_page andThen_goto andThen_evaluate andThen_console_log andThen_create
  andThen_write andThen_evaluated console_log_def content0_text_def emit_def advanced_def
  navigated_def captured_def extracted_def generated_def logged_code_def completed_def
  bodyHtml_of_def extract_call_def generate_call_def target_def

text \<open>The body of the \<^verbatim>\<open>try\<close> along each of its paths: where it stops, with what, and in which state.\<close>

lemma try_launch_fails:
  assumes "launch env = Some e"
  shows "try_of v env url testName s =
           (Inl e, advanced s [(Launch, Some e)] False False)"
  using assms by (simp add: steps)

lemma try_newPage_fails:
  assumes "launch env = None"
    and "newPage env = Some e"
  shows "try_of v env url testName s =
           (Inl e, advanced s [(Launch, None), (NewPage, Some e)] True False)"
  using assms by (simp add: steps)

lemma try_goto_fails:
  assumes "launch env = None"
    and "newPage env = None"
    and "goto env url = Some e"
  shows "try_of v env url testName s =
           (Inl e, advanced s [(Launch, None), (NewPage, None), (Goto url, Some e)] True True)"
  using assms by (simp add: steps)

lemma try_evaluate_fails:
  assumes "launch env = None"
    and "newPage env = None"
    and "goto env url = None"
    and "evaluate_fault env = Some e \<or> evaluate_fault env = None \<and> document_body env url = None \<and> e = null_body_error"
  shows "try_of v env url testName s =
           (Inl e, advanced s (navigated url @ [(Evaluate, Some e)]) True True)"
  using assms by (auto simp add: steps)

lemma try_extract_fails:
  assumes "launch env = None"
    and "newPage env = None"
    and "goto env url = None"
    and "evaluate_fault env = None"
    and "document_body env url = Some b"
    and "messages_create env Extract (extract_request_of v (bodyHtml_of v env b) testName) = Inl e"
  shows "try_of v env url testName s =
           (Inl e, advanced s (captured v env url b @ [(extract_call v env testName b, Some e)]) True True)"
  using assms by (simp add: steps)

lemma try_extract_empty:
  assumes "launch env = None"
    and "newPage env = None"
    and "goto env url = None"
    and "evaluate_fault env = None"
    and "document_body env url = Some b"
    and "messages_create env Extract (extract_request_of v (bodyHtml_of v env b) testName) = Inr []"
  shows "try_of v env url testName s =
           (Inl undefined_text_error, advanced s (extracted v env url testName b) True True)"
  using assms by (simp add: steps)

lemma try_parse_fails:
  assumes "launch env = None"
    and "newPage env = None"
    and "goto env url = None"
    and "evaluate_fault env = None"
    and "document_body env url = Some b"
    and "messages_create env Extract (extract_request_of v (bodyHtml_of v env b) testName) = Inr (t # rest)"
    and "parsed_of v env t = Inl e"
  shows "try_of v env url testName s =
           (Inl e, advanced s (extracted v env url testName b) True True)"
  using assms by (simp add: steps)

lemma try_generate_fails:
  assumes "launch env = None"
    and "newPage env = None"
    and "goto env url = None"
    and "evaluate_fault env = None"
    and "document_body env url = Some b"
    and "messages_create env Extract (extract_request_of v (bodyHtml_of v env b) testName) = Inr (t # rest)"
    and "parsed_of v env t = Inr d"
    and "messages_create env Generate (generate_request_of v env d testName) = Inl e"
  shows "try_of v env url testName s =
           (Inl e, advanced s (extracted v env url testName b @ [(generate_call v env testName d, Some e)]) True True)"
  using assms by (simp add: steps)

lemma try_generate_empty:
  assumes "launch env = None"
    and "newPage env = None"
    and "goto env url = None"
    and "evaluate_fault env = None"
    and "document_body env url = Some b"
    and "messages_create env Extract (extract_request_of v (bodyHtml_of v env b) testName) = Inr (t # rest)"
    and "parsed_of v env t = Inr d"
    and "messages_create env Generate (generate_request_of v env d testName) = Inr []"
  shows "try_of v env url testName s =
           (Inl undefined_text_error, advanced s (generated v env url testName b d) True True)"
  using assms by (simp add: steps)

lemma try_write_fails:
  assumes "launch env = None"
    and "newPage env = None"
    and "goto env url = None"
    and "evaluate_fault env = None"
    and "document_body env url = Some b"
    and "messages_create env Extract (extract_request_of v (bodyHtml_of v env b) testName) = Inr (t # rest)"
    and "parsed_of v env t = Inr d"
    and "messages_create env Generate (generate_request_of v env d testName) = Inr (code # rest')"
    and "writeFileSync env target code = Some e"
  shows "try_of v env url testName s =
           (Inl e, advanced s (logged_code v env url testName b d code @ [(WriteFileSync target code, Some e)]) True True)"
  using assms by (simp add: steps)

lemma try_success:
  assumes "launch env = None"
    and "newPage env = None"
    and "goto env url = None"
    and "evaluate_fault env = None"
    and "document_body env url = Some b"
    and "messages_create env Extract (extract_request_of v (bodyHtml_of v env b) testName) = Inr (t # rest)"
    and "parsed_of v env t = Inr d"
    and "messages_create env Generate (generate_request_of v env d testName) = Inr (code # rest')"
    and "writeFileSync env target code = None"
  shows "try_of v env url testName s =
           (Inr (), (advanced s (completed v env url testName b d code) True True)\<lparr>files := (files s)(target \<mapsto> code)\<rparr>)"
  using assms by (simp add: steps)

text \<open>The paths are all there are.\<close>

lemma try_of_cases [case_names launch_fails newPage_fails goto_fails evaluate_fails extract_fails extract_empty parse_fails generate_fails generate_empty write_fails success]:
  obtains
    (launch_fails) e where "launch env = Some e"
      "try_of v env url testName s =
         (Inl e, advanced s [(Launch, Some e)] False False)"
  | (newPage_fails) e where "launch env = None" "newPage env = Some e"
      "try_of v env url testName s =
         (Inl e, advanced s [(Launch, None), (NewPage, Some e)] True False)"
  | (goto_fails) e where "launch env = None" "newPage env = None" "goto env url = Some e"
      "try_of v env url testName s =
         (Inl e, advanced s [(Launch, None), (NewPage, None), (Goto url, Some e)] True True)"
  | (evaluate_fails) e where "launch env = None" "newPage env = None" "goto env url = None" "evaluate_fault env = Some e \<or> evaluate_fault env = None \<and> document_body env url = None \<and> e = null_body_error"
      "try_of v env url testName s =
         (Inl e, advanced s (navigated url @ [(Evaluate, Some e)]) True True)"
  | (extract_fails) b e where "launch env = None" "newPage env = None" "goto env url = None" "evaluate_fault env = None" "document_body env url = Some b" "messages_create env Extract (extract_request_of v (bodyHtml_of v env b) testName) = Inl e"
      "try_of v env url testName s =
         (Inl e, advanced s (captured v env url b @ [(extract_call v env testName b, Some e)]) True True)"
  | (extract_empty) b where "launch env = None" "newPage env = None" "goto env url = None" "evaluate_fault env = None" "document_body env url = Some b" "messages_create env Extract (extract_request_of v (bodyHtml_of v env b) testName) = Inr []"
      "try_of v env url testName s =
         (Inl undefined_text_error, advanced s (extracted v env url testName b) True True)"
  | (parse_fails) b t rest e where "launch env = None" "newPage env = None" "goto env url = None" "evaluate_fault env = None" "document_body env url = Some b" "messages_create env Extract (extract_request_of v (bodyHtml_of v env b) testName) = Inr (t # rest)" "parsed_of v env t = Inl e"
      "try_of v env url testName s =
         (Inl e, advanced s (extracted v env url testName b) True True)"
  | (generate_fails) b t rest d e where "launch env = None" "newPage env = None" "goto env url = None" "evaluate_fault env = None" "document_body env url = Some b" "messages_create env Extract (extract_request_of v (bodyHtml_of v env b) testName) = Inr (t # rest)" "parsed_of v env t = Inr d" "messages_create env Generate (generate_request_of v env d testName) = Inl e"
      "try_of v env url testName s =
         (Inl e, advanced s (extracted v env url testName b @ [(generate_call v env testName d, Some e)]) True True)"
  | (generate_empty) b t rest d where "launch env = None" "newPage env = None" "goto env url = None" "evaluate_fault env = None" "document_body env url = Some b" "messages_create env Extract (extract_request_of v (bodyHtml_of v env b) testName) = Inr (t # rest)" "parsed_of v env t = Inr d" "messages_create env Generate (generate_request_of v env d testName) = Inr []"
      "try_of v env url testName s =
         (Inl undefined_text_error, advanced s (generated v env url testName b d) True True)"
  | (write_fails) b t rest d code rest' e where "launch env = None" "newPage env = None" "goto env url = None" "evaluate_fault env = None" "document_body env url = Some b" "messages_create env Extract (extract_request_of v (bodyHtml_of v env b) testName) = Inr (t # rest)" "parsed_of v env t = Inr d" "messages_create env Generate (generate_request_of v env d testName) = Inr (code # rest')" "writeFileSync env target code = Some e"
      "try_of v env url testName s =
         (Inl e, advanced s (logged_code v env url testName b d code @ [(WriteFileSync target code, Some e)]) True True)"
  | (success) b t rest d code rest' where "launch env = None" "newPage env = None" "goto env url = None" "evaluate_fault env = None" "document_body env url = Some b" "messages_create env Extract (extract_request_of v (bodyHtml_of v env b) testName) = Inr (t # rest)" "parsed_of v env t = Inr d" "messages_create env Generate (generate_request_of v env d testName) = Inr (code # rest')" "writeFileSync env target code = None"
      "try_of v env url testName s =
         (Inr (), (advanced s (completed v env url testName b d code) True True)\<lparr>files := (files s)(target \<mapsto> code)\<rparr>)"
proof (cases "launch env")
  case (Some e)
  then show ?thesis by (intro launch_fails[of e]) (simp_all add: try_launch_fails)
next
  case L: None
  show ?thesis
  proof (cases "newPage env")
    case (Some e)
    with L show ?thesis by (intro newPage_fails[of e]) (simp_all add: try_newPage_fails)
  next
    case N: None
    show ?thesis
    proof (cases "goto env url")
      case (Some e)
      with L N show ?thesis by (intro goto_fails[of e]) (simp_all add: try_goto_fails)
    next
      case G: None
      show ?thesis
      proof (cases "evaluate_fault env")
        case (Some e)
        with L N G show ?thesis by (intro evaluate_fails[of e]) (simp_all add: try_evaluate_fails)
      next
        case F: None
        show ?thesis
        proof (cases "document_body env url")
          case None
          with L N G F show ?thesis by (intro evaluate_fails[of null_body_error]) (simp_all add: try_evaluate_fails)
        next
          case B: (Some b)
          show ?thesis
          proof (cases "messages_create env Extract (extract_request_of v (bodyHtml_of v env b) testName)")
            case (Inl e)
            with L N G F B show ?thesis by (intro extract_fails[of b e]) (simp_all add: try_extract_fails)
          next
            case (Inr msg)
            show ?thesis
            proof (cases msg)
              case Nil
              with L N G F B Inr show ?thesis by (intro extract_empty[of b]) (simp_all add: try_extract_empty)
            next
              case (Cons t rest)
              note X = Inr[unfolded Cons]
              show ?thesis
              proof (cases "parsed_of v env t")
                case (Inl e)
                with L N G F B X show ?thesis by (intro parse_fails[of b t rest e]) (simp_all add: try_parse_fails)
              next
                case P: (Inr d)
                show ?thesis
                proof (cases "messages_create env Generate (generate_request_of v env d testName)")
                  case (Inl e)
                  with L N G F B X P show ?thesis
                    by (intro generate_fails[of b t rest d e]) (simp_all add: try_generate_fails)
                next
                  case (Inr msg2)
                  show ?thesis
                  proof (cases msg2)
                    case Nil
                    with L N G F B X P Inr show ?thesis
                      by (intro generate_empty[of b t rest d]) (simp_all add: try_generate_empty)
                  next
                    case (Cons code rest')
                    note Y = Inr[unfolded Cons]
                    show ?thesis
                    proof (cases "writeFileSync env target code")
                      case (Some e)
                      with L N G F B X P Y show ?thesis
                        by (intro write_fails[of b t rest d code rest' e]) (simp_all add: try_write_fails)
                    next
                      case None
                      with L N G F B X P Y show ?thesis
                        by (intro success[of b t rest d code rest']) (simp_all add: try_success)
                    qed
                  qed
                qed
              qed
            qed
          qed
        qed
      qed
    qed
  qed
qed

lemma initial_sel:
  "trace (initial fs) = []" "files (initial fs) = fs" "browser (initial fs) = False"
  "page (initial fs) = False" "open_browsers (initial fs) = 0" "open_pages (initial fs) = 0"
  by (simp_all add: initial_def)

lemma runTest_initial:
  "runTest v env url testName (initial fs) =
     try_catch_finally (try_of v env url testName) runTest_catch (runTest_finally env) (initial fs)"
  by (cases v) (simp_all add: runTest_def try_of_def generator_runTest_def tester_runTest_def initial_def)

lemma runTest_catch_eq:
  "runTest_catch e s =
     (Inr (), s\<lparr>trace := trace s @ [(ConsoleError ''Test failed:'' (logged_of e), None)]\<rparr>)"
  by (cases e) (simp_all add: runTest_catch_def console_error_def emit_def logged_of_def)

lemmas run_simps = runTest_initial try_catch_finally_def runTest_catch_eq runTest_finally_def
  andThen_def page_close_call_def browser_close_call_def console_error_def emit_def advanced_def
  initial_sel

lemmas trace_simps = navigated_def captured_def extracted_def generated_def logged_code_def
  completed_def extract_call_def generate_call_def target_def


text \<open>What \<open>precedes\<close> computes.\<close>

lemma precedes_iff:
  "precedes P Q tr = (\<forall>i < length tr. Q (tr ! i) \<longrightarrow> (\<exists>j < i. P (tr ! j)))"
  by (induction tr) (auto simp: All_less_Suc2 Ex_less_Suc2)

lemmas count_simps = calls_def returns_def returned_def called_def isCall_def

subsection \<open>Runs in the sample world\<close>

lemma sample_try_success:
  assumes "launch env = None" and "newPage env = None" and "goto env url = None"
    and "evaluate_fault env = None" and "document_body env url = Some sample_body"
    and "messages_create env = sample_llm" and "JSON_parse env = sample_parse"
    and "writeFileSync env target sample_code = None"
  shows "try_of v env url testName s =
           (Inr (), (advanced s (completed v env url testName sample_body (sample_parsed v) sample_code) True True)
                      \<lparr>files := (files s)(target \<mapsto> sample_code)\<rparr>)"
  using assms
  by (intro try_success[where t=sample_extract_answer and rest="[]" and rest'="[]"])
     (simp_all add: sample_llm_def sample_parse_def parsed_of_def sample_parsed_def split: script.split)

lemma sample_env_sel:
  "launch sample_env = None" "newPage sample_env = None" "goto sample_env url = None"
  "evaluate_fault sample_env = None" "document_body sample_env url = Some sample_body"
  "messages_create sample_env = sample_llm" "JSON_parse sample_env = sample_parse"
  "writeFileSync sample_env path data = None" "page_close sample_env = None"
  "browser_close sample_env = None" "innerHTML sample_env = sample_innerHTML"
  "JSON_stringify sample_env = sample_stringify"
  by (simp_all add: sample_env_def)

lemma nav_fails_try:
  "try_of v nav_fails url testName s =
     (Inl timeout_error, advanced s [(Launch, None), (NewPage, None), (Goto url, Some timeout_error)] True True)"
  by (rule try_goto_fails) (simp_all add: nav_fails_def sample_env_sel)

lemma close_fails_run:
  "fst (runTest v close_fails url testName (initial fs)) = Inl closed_error"
proof -
  have "try_of v close_fails url testName (initial fs) =
           (Inr (), (advanced (initial fs) (completed v close_fails url testName sample_body (sample_parsed v) sample_code) True True)
                      \<lparr>files := (files (initial fs))(target \<mapsto> sample_code)\<rparr>)"
    by (rule sample_try_success) (simp_all add: close_fails_def sample_env_sel)
  then show ?thesis
    by (simp add: run_simps close_fails_def)
qed

lemma sample_run_try:
  "try_of v sample_env url testName (initial fs) =
     (Inr (), (advanced (initial fs) (completed v sample_env url testName sample_body (sample_parsed v) sample_code) True True)
                \<lparr>files := (files (initial fs))(target \<mapsto> sample_code)\<rparr>)"
  by (rule sample_try_success) (simp_all add: sample_env_sel)

lemma close_fails_try:
  "try_of v close_fails url testName (initial fs) =
     (Inr (), (advanced (initial fs) (completed v close_fails url testName sample_body (sample_parsed v) sample_code) True True)
                \<lparr>files := (files (initial fs))(target \<mapsto> sample_code)\<rparr>)"
  by (rule sample_try_success) (simp_all add: close_fails_def sample_env_sel)

lemma launch_fails_try:
  "try_of v launch_fails url testName s = (Inl timeout_error, advanced s [(Launch, Some timeout_error)] False False)"
  by (rule try_launch_fails) (simp add: launch_fails_def)


lemma generator_runTest_eq: "generator_runTest = runTest Generator"
  by (simp add: runTest_def)


lemma tester_runTest_eq: "tester_runTest = runTest Tester"
  by (simp add: runTest_def)

lemma tester_try_eq: "tester_try = try_of Tester"
  by (simp add: try_of_def)

lemma variant_sel:
  "page_close launch_fails = None" "browser_close launch_fails = None"
  "page_close nav_fails = None" "browser_close nav_fails = None"
  "page_close close_fails = Some closed_error" "browser_close close_fails = None"
  "page_close prose_env = None" "browser_close prose_env = None"
  "JSON_parse prose_env = sample_parse" "messages_create prose_env = prose_llm"
  "document_body close_fails = document_body sample_env"
  "innerHTML close_fails = innerHTML sample_env"
  "messages_create close_fails = messages_create sample_env"
  "JSON_parse close_fails = JSON_parse sample_env"
  "JSON_stringify close_fails = JSON_stringify sample_env"
  by (simp_all add: launch_fails_def nav_fails_def close_fails_def prose_env_def sample_env_def)


lemma resolves_when_closed:
  "page_close env = None \<Longrightarrow> browser_close env = None \<Longrightarrow>
     fst (runTest v env url testName (initial fs)) = Inr ()"
  by (rule try_of_cases[where env=env and v=v and url=url and testName=testName and s="initial fs"])
     (simp_all add: run_simps split: option.split)


text \<open>The sample url and test name are those of the call at the end of \<^verbatim>\<open>src/tester.ts\<close>.\<close>

lemma tester_main_eq: "tester_main env = runTest Tester env sample_url sample_name"
  by (simp add: tester_main_def runTest_def sample_url_def sample_name_def)

section \<open>The claims about the two scripts\<close>





text \<open>
  Claim C2, as the code has it. An error thrown in the \<^verbatim>\<open>try\<close> block of \<^verbatim>\<open>runTest\<close> (by
  the launch, the navigation, the evaluation, either LLM call, a response without content
  or, in the tester, \<^verbatim>\<open>JSON.parse\<close>) is caught by the one \<^verbatim>\<open>catch\<close> and logged with
  \<^verbatim>\<open>console.error\<close>. The promise of \<^verbatim>\<open>runTest\<close> resolves whenever the two \<^verbatim>\<open>close\<close> calls of
  the \<^verbatim>\<open>finally\<close> block do not throw, and when it rejects, it rejects with the error of one
  of them.
\<close>

theorem runTest_catches_try_errors:
  "(fst (try_of v env url testName (initial fs)) = Inl e \<longrightarrow>
      (ConsoleError ''Test failed:'' (logged_of e), None)
        \<in> set (trace (snd (runTest v env url testName (initial fs)))))
   \<and> (page_close env = None \<and> browser_close env = None \<longrightarrow>
        fst (runTest v env url testName (initial fs)) = Inr ())
   \<and> (fst (runTest v env url testName (initial fs)) = Inl e' \<longrightarrow>
        page_close env = Some e' \<or> browser_close env = Some e')"
proof (intro conjI impI)
  assume "fst (try_of v env url testName (initial fs)) = Inl e"
  then show "(ConsoleError ''Test failed:'' (logged_of e), None)
        \<in> set (trace (snd (runTest v env url testName (initial fs))))"
    by (rule_tac try_of_cases[where env=env and v=v and url=url and testName=testName and s="initial fs"])
       (simp_all add: run_simps split: option.split)
next
  assume "page_close env = None \<and> browser_close env = None"
  then show "fst (runTest v env url testName (initial fs)) = Inr ()"
    by (rule_tac try_of_cases[where env=env and v=v and url=url and testName=testName and s="initial fs"])
       (simp_all add: run_simps split: option.split)
next
  assume "fst (runTest v env url testName (initial fs)) = Inl e'"
  then show "page_close env = Some e' \<or> browser_close env = Some e'"
    by (rule_tac try_of_cases[where env=env and v=v and url=url and testName=testName and s="initial fs"])
       (auto simp add: run_simps split: option.splits)
qed

text \<open>In the sample world: a navigation that times out is logged and the promise resolves;
  a \<^verbatim>\<open>page.close()\<close> that throws is the error the promise rejects with.\<close>

theorem runTest_catches_try_errors_witness:
  "fst (try_of Tester nav_fails sample_url sample_name (initial Map.empty)) = Inl timeout_error
   \<and> (ConsoleError ''Test failed:'' (logged_of timeout_error), None)
        \<in> set (trace (snd (runTest Tester nav_fails sample_url sample_name (initial Map.empty))))
   \<and> fst (runTest Tester nav_fails sample_url sample_name (initial Map.empty)) = Inr ()
   \<and> fst (runTest Tester close_fails sample_url sample_name (initial Map.empty)) = Inl closed_error
   \<and> page_close close_fails = Some closed_error"
  using runTest_catches_try_errors[of Tester nav_fails sample_url sample_name Map.empty timeout_error]
    runTest_catches_try_errors[of Tester close_fails sample_url sample_name Map.empty _ closed_error]
    close_fails_run[of Tester sample_url sample_name Map.empty]
  by (simp add: nav_fails_try) (simp add: nav_fails_def close_fails_def sample_env_sel)

text \<open>Claim C2 as stated (the promise never rejects) fails when \<^verbatim>\<open>page.close()\<close> throws in
  the \<^verbatim>\<open>finally\<close> block: nothing catches that error.\<close>

theorem runTest_rejects_counterexample:
  "fst (generator_runTest close_fails sample_url sample_name (initial Map.empty)) = Inl closed_error"
  using close_fails_run[of Generator sample_url sample_name Map.empty]
  by (simp add: runTest_def)

text \<open>
  Claim C3, as the code has it. A run opens at most one browser and at most one page, and
  exactly one of each when \<^verbatim>\<open>chromium.launch\<close> and \<^verbatim>\<open>browser.newPage\<close> succeed. Whenever
  the two \<^verbatim>\<open>close\<close> calls of the \<^verbatim>\<open>finally\<close> block do not throw, every browser and page the
  run opened has been closed when \<^verbatim>\<open>runTest\<close> settles, whether the \<^verbatim>\<open>try\<close> block completed
  or threw.
\<close>

theorem runTest_opens_and_closes:
  "returns (isCall Launch) (trace (snd (runTest v env url testName (initial fs)))) \<le> 1
   \<and> returns (isCall NewPage) (trace (snd (runTest v env url testName (initial fs)))) \<le> 1
   \<and> (launch env = None \<and> newPage env = None \<longrightarrow>
        returns (isCall Launch) (trace (snd (runTest v env url testName (initial fs)))) = 1
        \<and> returns (isCall NewPage) (trace (snd (runTest v env url testName (initial fs)))) = 1)
   \<and> (page_close env = None \<and> browser_close env = None \<longrightarrow>
        open_browsers (snd (runTest v env url testName (initial fs))) = 0
        \<and> open_pages (snd (runTest v env url testName (initial fs))) = 0
        \<and> returns (isCall BrowserClose) (trace (snd (runTest v env url testName (initial fs))))
            = returns (isCall Launch) (trace (snd (runTest v env url testName (initial fs))))
        \<and> returns (isCall PageClose) (trace (snd (runTest v env url testName (initial fs))))
            = returns (isCall NewPage) (trace (snd (runTest v env url testName (initial fs)))))"
  by (rule try_of_cases[where env=env and v=v and url=url and testName=testName and s="initial fs"])
     (simp_all add: run_simps trace_simps count_simps split: option.split)

text \<open>In the sample world a run opens one browser and one page and closes both.\<close>

theorem runTest_opens_and_closes_witness:
  "returns (isCall Launch) (trace (snd (runTest Generator sample_env sample_url sample_name (initial Map.empty)))) = 1
   \<and> returns (isCall NewPage) (trace (snd (runTest Generator sample_env sample_url sample_name (initial Map.empty)))) = 1
   \<and> returns (isCall BrowserClose) (trace (snd (runTest Generator sample_env sample_url sample_name (initial Map.empty)))) = 1
   \<and> returns (isCall PageClose) (trace (snd (runTest Generator sample_env sample_url sample_name (initial Map.empty)))) = 1
   \<and> open_browsers (snd (runTest Generator sample_env sample_url sample_name (initial Map.empty))) = 0
   \<and> open_pages (snd (runTest Generator sample_env sample_url sample_name (initial Map.empty))) = 0"
  using runTest_opens_and_closes[of Generator sample_env sample_url sample_name Map.empty]
  by (simp add: sample_env_sel)

text \<open>
  Claim C3 as stated fails in two ways. When \<^verbatim>\<open>chromium.launch\<close> rejects, no browser is opened
  at all. When \<^verbatim>\<open>page.close()\<close> throws in the \<^verbatim>\<open>finally\<close> block, \<^verbatim>\<open>browser.close()\<close> is never
  called and the run ends with the browser and the page open.
\<close>

theorem browser_left_open_counterexample:
  "returns (isCall Launch) (trace (snd (generator_runTest launch_fails sample_url sample_name (initial Map.empty)))) = 0
   \<and> open_browsers (snd (generator_runTest close_fails sample_url sample_name (initial Map.empty))) = 1
   \<and> open_pages (snd (generator_runTest close_fails sample_url sample_name (initial Map.empty))) = 1
   \<and> calls (isCall BrowserClose) (trace (snd (generator_runTest close_fails sample_url sample_name (initial Map.empty)))) = 0"
  by (simp add: generator_runTest_eq run_simps trace_simps count_simps
      launch_fails_try close_fails_try variant_sel)

text \<open>
  Claim C4. In every run the launch has returned before the navigation is called, the
  navigation has returned before the HTML is captured, the capture has returned before
  the first LLM call, the first LLM call has returned before the second is made, and the
  second has returned before the file is written.
\<close>

theorem runTest_in_order:
  "precedes (returned (isCall Launch)) (called isGoto)
     (trace (snd (runTest v env url testName (initial fs))))
   \<and> precedes (returned isGoto) (called (isCall Evaluate))
       (trace (snd (runTest v env url testName (initial fs))))
   \<and> precedes (returned (isCall Evaluate)) (called (isCreate Extract))
       (trace (snd (runTest v env url testName (initial fs))))
   \<and> precedes (returned (isCreate Extract)) (called (isCreate Generate))
       (trace (snd (runTest v env url testName (initial fs))))
   \<and> precedes (returned (isCreate Generate)) (called isWrite)
       (trace (snd (runTest v env url testName (initial fs))))"
  by (rule try_of_cases[where env=env and v=v and url=url and testName=testName and s="initial fs"])
     (simp_all add: run_simps trace_simps count_simps split: option.split)

text \<open>In the sample world, for the tester.\<close>

theorem runTest_in_order_witness:
  "precedes (returned (isCreate Extract)) (called (isCreate Generate))
     (trace (snd (runTest Tester sample_env sample_url sample_name (initial Map.empty))))
   \<and> precedes (returned (isCreate Generate)) (called isWrite)
     (trace (snd (runTest Tester sample_env sample_url sample_name (initial Map.empty))))
   \<and> calls isWrite (trace (snd (runTest Tester sample_env sample_url sample_name (initial Map.empty)))) = 1"
  using runTest_in_order[of Tester sample_env sample_url sample_name Map.empty]
  by (simp add: run_simps trace_simps count_simps sample_run_try sample_env_sel)







lemma written_code:
  assumes "fst (try_of v env url testName (initial fs)) = Inr ()"
  shows "\<exists>d code rest.
           messages_create env Generate (generate_request_of v env d testName) = Inr (code # rest)
           \<and> (WriteFileSync target code, None)
                \<in> set (trace (snd (runTest v env url testName (initial fs))))
           \<and> files (snd (runTest v env url testName (initial fs))) target = Some code"
proof (cases rule: try_of_cases[where env=env and v=v and url=url and testName=testName and s="initial fs"])
  case (success b t rest d code rest')
  have "(WriteFileSync target code, None)
          \<in> set (trace (snd (runTest v env url testName (initial fs))))"
    by (simp add: success run_simps trace_simps split: option.split)
  moreover have "files (snd (runTest v env url testName (initial fs))) target = Some code"
    by (simp add: success run_simps split: option.split)
  ultimately show ?thesis
    using success(8) by blast
qed (use assms in simp_all)

text \<open>
  Claim C6. Whatever the url and the test name, a run leaves every file other than
  \<^verbatim>\<open>src/test.ts\<close> as it was, every \<^verbatim>\<open>writeFileSync\<close> call it makes is to that path and it
  makes at most one; when the \<^verbatim>\<open>try\<close> block completes, the file holds the text of the
  first content block of the second answer.
\<close>

theorem only_target_written:
  "(p \<noteq> target \<longrightarrow> files (snd (runTest v env url testName (initial fs))) p = fs p)
   \<and> list_all (\<lambda>ev. case fst ev of WriteFileSync path data \<Rightarrow> path = target | _ \<Rightarrow> True)
        (trace (snd (runTest v env url testName (initial fs))))
   \<and> calls isWrite (trace (snd (runTest v env url testName (initial fs)))) \<le> 1
   \<and> (fst (try_of v env url testName (initial fs)) = Inr () \<longrightarrow>
        (\<exists>d code rest.
           messages_create env Generate (generate_request_of v env d testName) = Inr (code # rest)
           \<and> (WriteFileSync target code, None)
                \<in> set (trace (snd (runTest v env url testName (initial fs))))
           \<and> files (snd (runTest v env url testName (initial fs))) target = Some code))"
proof -
  have "(p \<noteq> target \<longrightarrow> files (snd (runTest v env url testName (initial fs))) p = fs p)
   \<and> list_all (\<lambda>ev. case fst ev of WriteFileSync path data \<Rightarrow> path = target | _ \<Rightarrow> True)
        (trace (snd (runTest v env url testName (initial fs))))
   \<and> calls isWrite (trace (snd (runTest v env url testName (initial fs)))) \<le> 1"
    by (rule try_of_cases[where env=env and v=v and url=url and testName=testName and s="initial fs"])
       (simp_all add: run_simps trace_simps count_simps split: option.split)
  with written_code show ?thesis by blast
qed

text \<open>In the sample world the generator leaves \<^verbatim>\<open>sanitized.html\<close> absent and writes the
  answer of the LLM to \<^verbatim>\<open>src/test.ts\<close>.\<close>

theorem only_target_written_witness:
  "fst (try_of Generator sample_env sample_url sample_name (initial Map.empty)) = Inr ()
   \<and> files (snd (runTest Generator sample_env sample_url sample_name (initial Map.empty))) ''sanitized.html'' = None
   \<and> files (snd (runTest Generator sample_env sample_url sample_name (initial Map.empty))) target = Some sample_code"
  using only_target_written[of "''sanitized.html''" Generator sample_env sample_url sample_name Map.empty]
  by (auto simp add: sample_run_try target_def sample_env_sel sample_llm_def)

text \<open>
  Claim C7. No call is made twice in a run, so each of the two stages calls
  \<^verbatim>\<open>messages.create\<close> at most once, and exactly once when the \<^verbatim>\<open>try\<close> block completes;
  after a call that threw, only the \<^verbatim>\<open>catch\<close> and the \<^verbatim>\<open>finally\<close> make calls.
\<close>

theorem no_retry:
  "distinct (map fst (trace (snd (runTest v env url testName (initial fs)))))
   \<and> quietAfterFailure (trace (snd (runTest v env url testName (initial fs))))
   \<and> calls (isCreate Extract) (trace (snd (runTest v env url testName (initial fs)))) \<le> 1
   \<and> calls (isCreate Generate) (trace (snd (runTest v env url testName (initial fs)))) \<le> 1
   \<and> (fst (try_of v env url testName (initial fs)) = Inr () \<longrightarrow>
        calls (isCreate Extract) (trace (snd (runTest v env url testName (initial fs)))) = 1
        \<and> calls (isCreate Generate) (trace (snd (runTest v env url testName (initial fs)))) = 1)"
  by (rule try_of_cases[where env=env and v=v and url=url and testName=testName and s="initial fs"])
     (simp_all add: run_simps trace_simps count_simps split: option.split)

text \<open>In the sample world, for the tester.\<close>

theorem no_retry_witness:
  "fst (try_of Tester sample_env sample_url sample_name (initial Map.empty)) = Inr ()
   \<and> calls (isCreate Extract) (trace (snd (runTest Tester sample_env sample_url sample_name (initial Map.empty)))) = 1
   \<and> calls (isCreate Generate) (trace (snd (runTest Tester sample_env sample_url sample_name (initial Map.empty)))) = 1
   \<and> distinct (map fst (trace (snd (runTest Tester sample_env sample_url sample_name (initial Map.empty)))))"
  using no_retry[of Tester sample_env sample_url sample_name Map.empty]
  by (simp add: sample_run_try)

lemma outputs_prefix:
  "prefix (outputs (trace (snd (runTest v env url testName (initial fs)))))
     (transcript v env url testName)
   \<and> (fst (try_of v env url testName (initial fs)) = Inr () \<longrightarrow>
        outputs (trace (snd (runTest v env url testName (initial fs)))) = transcript v env url testName
        \<and> files (snd (runTest v env url testName (initial fs))) target
            = written (transcript v env url testName))"
  by (rule try_of_cases[where env=env and v=v and url=url and testName=testName and s="initial fs"])
     (simp_all add: run_simps trace_simps outputs_def transcript_def written_def split: option.split)

lemma transcript_cong:
  assumes "document_body e1 url = document_body e2 url" and "innerHTML e1 = innerHTML e2"
    and "messages_create e1 = messages_create e2" and "JSON_parse e1 = JSON_parse e2"
    and "JSON_stringify e1 = JSON_stringify e2"
  shows "transcript v e1 url testName = transcript v e2 url testName"
proof -
  have h1: "bodyHtml_of v e1 = bodyHtml_of v e2"
    by (rule ext) (simp add: bodyHtml_of_def assms)
  have h2: "generate_request_of v e1 = generate_request_of v e2"
    by (rule ext, rule ext)
       (simp add: generate_request_of_def generator_generate_request_def
          tester_generate_request_def assms split: script.split)
  have h3: "parsed_of v e1 = parsed_of v e2"
    by (rule ext) (simp add: parsed_of_def assms split: script.split)
  show ?thesis
    unfolding transcript_def extract_call_def generate_call_def h1 h2 h3 assms(1) assms(3)
    by (rule refl)
qed

text \<open>
  Claim C8. Take two runs of the same script with the same url and test name, in two
  worlds that show the same page, give the same LLM answers and have the same serializer
  and \<^verbatim>\<open>JSON\<close> functions; the other collaborators and the files may differ. What the two
  runs log, send to the LLM and write (the captured HTML, the prompts, the file content)
  agrees as far as both get, and when both \<^verbatim>\<open>try\<close> blocks complete, the outputs are equal
  and so is the content of the written file.
\<close>

theorem same_inputs_same_outputs:
  assumes "document_body e1 url = document_body e2 url" and "innerHTML e1 = innerHTML e2"
    and "messages_create e1 = messages_create e2" and "JSON_parse e1 = JSON_parse e2"
    and "JSON_stringify e1 = JSON_stringify e2"
  shows "(prefix (outputs (trace (snd (runTest v e1 url testName (initial fs1)))))
            (outputs (trace (snd (runTest v e2 url testName (initial fs2)))))
          \<or> prefix (outputs (trace (snd (runTest v e2 url testName (initial fs2)))))
              (outputs (trace (snd (runTest v e1 url testName (initial fs1))))))
       \<and> (fst (try_of v e1 url testName (initial fs1)) = Inr ()
          \<and> fst (try_of v e2 url testName (initial fs2)) = Inr () \<longrightarrow>
            outputs (trace (snd (runTest v e1 url testName (initial fs1))))
              = outputs (trace (snd (runTest v e2 url testName (initial fs2))))
            \<and> files (snd (runTest v e1 url testName (initial fs1))) target
                = files (snd (runTest v e2 url testName (initial fs2))) target)"
proof -
  have eq: "transcript v e1 url testName = transcript v e2 url testName"
    using assms by (rule transcript_cong)
  have p1: "prefix (outputs (trace (snd (runTest v e1 url testName (initial fs1)))))
              (transcript v e2 url testName)"
    using outputs_prefix[of v e1 url testName fs1] by (simp add: eq)
  have p2: "prefix (outputs (trace (snd (runTest v e2 url testName (initial fs2)))))
              (transcript v e2 url testName)"
    using outputs_prefix[of v e2 url testName fs2] by simp
  from p1 p2 have "prefix (outputs (trace (snd (runTest v e1 url testName (initial fs1)))))
            (outputs (trace (snd (runTest v e2 url testName (initial fs2)))))
          \<or> prefix (outputs (trace (snd (runTest v e2 url testName (initial fs2)))))
              (outputs (trace (snd (runTest v e1 url testName (initial fs1)))))"
    by (rule prefix_same_cases)
  then show ?thesis
    using outputs_prefix[of v e1 url testName fs1] outputs_prefix[of v e2 url testName fs2]
    by (simp add: eq)
qed

text \<open>The sample world and the one where \<^verbatim>\<open>page.close()\<close> throws, started on different
  files: the promises settle differently, the outputs and the written file agree.\<close>

theorem same_inputs_same_outputs_witness:
  "fst (try_of Tester sample_env sample_url sample_name (initial Map.empty)) = Inr ()
   \<and> fst (try_of Tester close_fails sample_url sample_name (initial (Map.empty(''notes.txt'' \<mapsto> ''x'')))) = Inr ()
   \<and> outputs (trace (snd (runTest Tester sample_env sample_url sample_name (initial Map.empty))))
       = outputs (trace (snd (runTest Tester close_fails sample_url sample_name (initial (Map.empty(''notes.txt'' \<mapsto> ''x''))))))
   \<and> files (snd (runTest Tester sample_env sample_url sample_name (initial Map.empty))) target
       = files (snd (runTest Tester close_fails sample_url sample_name (initial (Map.empty(''notes.txt'' \<mapsto> ''x''))))) target
   \<and> fst (runTest Tester sample_env sample_url sample_name (initial Map.empty))
       \<noteq> fst (runTest Tester close_fails sample_url sample_name (initial (Map.empty(''notes.txt'' \<mapsto> ''x''))))"
  using same_inputs_same_outputs[where ?e1.0=sample_env and ?e2.0=close_fails and url=sample_url
      and v=Tester and testName=sample_name and ?fs1.0=Map.empty
      and ?fs2.0="Map.empty(''notes.txt'' \<mapsto> ''x'')"]
    close_fails_run[of Tester sample_url sample_name "Map.empty(''notes.txt'' \<mapsto> ''x'')"]
    resolves_when_closed[of sample_env Tester sample_url sample_name Map.empty]
  by (simp add: sample_run_try close_fails_try variant_sel sample_env_sel)

section \<open>The claims about the regular-expression filters\<close>

text \<open>A match of the tokenizer is not empty: what follows it is shorter.\<close>

lemma upToGt_shorter: "upToGt s = Some rest \<Longrightarrow> length rest < length s"
  by (induction s) (auto split: if_splits)

lemma matchTag_shorter:
  assumes "matchTag s = Some (closingSlash, tagName, attributes, rest)"
  shows "length rest < length s"
proof -
  obtain c r0 where s: "s = c # r0"
    using assms by (cases s) (auto simp: matchTag_def)
  define r1 where "r1 = (if r0 \<noteq> [] \<and> hd r0 = CHR ''/'' then tl r0 else r0)"
  have "upToGt (dropWhile isWordChar r1) = Some rest"
    using assms unfolding s matchTag_def r1_def
    by (auto simp: Let_def split: if_splits option.splits)
  then have "length rest < length (dropWhile isWordChar r1)"
    by (rule upToGt_shorter)
  also have "\<dots> \<le> length r1"
    by (rule length_dropWhile_le)
  also have "\<dots> \<le> length r0"
    by (simp add: r1_def)
  finally show ?thesis by (simp add: s)
qed

subsection \<open>The matchers and the patterns\<close>

text \<open>
  What each matcher accepts, in terms of the text alone: a matcher succeeds at the start
  of a string exactly when a prefix of the string is in the language of its pattern,
  read without case.
\<close>

lemma literal_iff:
  "(literal p s = Some r) = (\<exists>w. s = w @ r \<and> map toLower w = map toLower p)"
proof (induction p s rule: literal.induct)
  case (1 s)
  then show ?case by auto
next
  case (2 p ps)
  then show ?case by auto
next
  case (3 p ps c cs)
  show ?case
  proof (cases "toLower c = toLower p")
    case True
    have "(\<exists>w. c # cs = w @ r \<and> map toLower w = map toLower (p # ps))
        = (\<exists>w'. cs = w' @ r \<and> map toLower w' = map toLower ps)"
      using True by (auto simp: Cons_eq_append_conv map_eq_Cons_conv)
    with 3 True show ?thesis by simp
  next
    case False
    then show ?thesis by (auto simp: Cons_eq_append_conv map_eq_Cons_conv)
  qed
qed

lemma upToGt_iff:
  "(upToGt s = Some r) = (\<exists>x. s = x @ CHR ''>'' # r \<and> CHR ''>'' \<notin> set x)"
proof (induction s)
  case Nil
  then show ?case by simp
next
  case (Cons c cs)
  show ?case
  proof (cases "c = CHR ''>''")
    case True
    then show ?thesis
      by (auto simp: Cons_eq_append_conv)
  next
    case False
    have "(\<exists>x. c # cs = x @ CHR ''>'' # r \<and> CHR ''>'' \<notin> set x)
        = (\<exists>x'. cs = x' @ CHR ''>'' # r \<and> CHR ''>'' \<notin> set x')"
      using False by (auto simp: Cons_eq_append_conv)
    with Cons False show ?thesis by simp
  qed
qed

lemma lazyUntil_iff:
  "(lazyUntil p s \<noteq> None) = (\<exists>y w r. s = y @ w @ r \<and> map toLower w = map toLower p)"
proof (induction s)
  case Nil
  then show ?case by (auto simp: literal_iff)
next
  case (Cons c cs)
  show ?case
  proof (cases "literal p (c # cs)")
    case (Some r)
    then have "\<exists>w. c # cs = [] @ w @ r \<and> map toLower w = map toLower p"
      by (simp add: literal_iff)
    then have "\<exists>y w r. c # cs = y @ w @ r \<and> map toLower w = map toLower p" by blast
    with Some show ?thesis by simp
  next
    case None
    have "(\<exists>y w r. c # cs = y @ w @ r \<and> map toLower w = map toLower p)
        = (\<exists>y w r. cs = y @ w @ r \<and> map toLower w = map toLower p)"
    proof
      assume "\<exists>y w r. c # cs = y @ w @ r \<and> map toLower w = map toLower p"
      then obtain y w r where d: "c # cs = y @ w @ r" "map toLower w = map toLower p" by blast
      show "\<exists>y w r. cs = y @ w @ r \<and> map toLower w = map toLower p"
      proof (cases y)
        case Nil
        with d have "literal p (c # cs) = Some r" by (auto simp: literal_iff)
        with None show ?thesis by simp
      next
        case (Cons a y')
        with d show ?thesis by auto
      qed
    next
      assume "\<exists>y w r. cs = y @ w @ r \<and> map toLower w = map toLower p"
      then obtain y w r where "cs = y @ w @ r" "map toLower w = map toLower p" by blast
      then have "c # cs = (c # y) @ w @ r \<and> map toLower w = map toLower p" by simp
      then show "\<exists>y w r. c # cs = y @ w @ r \<and> map toLower w = map toLower p" by blast
    qed
    with Cons None show ?thesis by simp
  qed
qed

lemma matchMeta_iff:
  "(matchMeta s = Some rest)
     = (\<exists>w x. s = w @ x @ CHR ''>'' # rest \<and> map toLower w = map toLower ''<meta''
          \<and> CHR ''>'' \<notin> set x)"
proof
  assume "matchMeta s = Some rest"
  then obtain r1 where "literal ''<meta'' s = Some r1" "upToGt r1 = Some rest"
    by (auto simp: matchMeta_def split: option.splits)
  then obtain w x where "s = w @ r1" "map toLower w = map toLower ''<meta''"
      "r1 = x @ CHR ''>'' # rest" "CHR ''>'' \<notin> set x"
    unfolding literal_iff upToGt_iff by blast
  then show "\<exists>w x. s = w @ x @ CHR ''>'' # rest \<and> map toLower w = map toLower ''<meta''
          \<and> CHR ''>'' \<notin> set x"
    by blast
next
  assume "\<exists>w x. s = w @ x @ CHR ''>'' # rest \<and> map toLower w = map toLower ''<meta''
          \<and> CHR ''>'' \<notin> set x"
  then obtain w x where d: "s = w @ x @ CHR ''>'' # rest" "map toLower w = map toLower ''<meta''"
      "CHR ''>'' \<notin> set x"
    by blast
  then have "literal ''<meta'' s = Some (x @ CHR ''>'' # rest)"
    unfolding literal_iff by blast
  moreover have "upToGt (x @ CHR ''>'' # rest) = Some rest"
    unfolding upToGt_iff using d(3) by blast
  ultimately show "matchMeta s = Some rest"
    by (simp add: matchMeta_def)
qed

lemma matchElement_iff:
  "(matchElement tag s \<noteq> None)
     = (\<exists>w x y c r. s = w @ x @ CHR ''>'' # y @ c @ r
          \<and> map toLower w = map toLower (''<'' @ tag) \<and> CHR ''>'' \<notin> set x
          \<and> map toLower c = map toLower (''</'' @ tag @ ''>''))"
proof
  assume "matchElement tag s \<noteq> None"
  then obtain r1 r2 where "literal (''<'' @ tag) s = Some r1" "upToGt r1 = Some r2"
      "lazyUntil (''</'' @ tag @ ''>'') r2 \<noteq> None"
    by (auto simp: matchElement_def split: option.splits)
  then obtain w x y c r where "s = w @ r1" "map toLower w = map toLower (''<'' @ tag)"
      "r1 = x @ CHR ''>'' # r2" "CHR ''>'' \<notin> set x"
      "r2 = y @ c @ r" "map toLower c = map toLower (''</'' @ tag @ ''>'')"
    unfolding literal_iff upToGt_iff lazyUntil_iff by blast
  then show "\<exists>w x y c r. s = w @ x @ CHR ''>'' # y @ c @ r
          \<and> map toLower w = map toLower (''<'' @ tag) \<and> CHR ''>'' \<notin> set x
          \<and> map toLower c = map toLower (''</'' @ tag @ ''>'')"
    by blast
next
  assume "\<exists>w x y c r. s = w @ x @ CHR ''>'' # y @ c @ r
          \<and> map toLower w = map toLower (''<'' @ tag) \<and> CHR ''>'' \<notin> set x
          \<and> map toLower c = map toLower (''</'' @ tag @ ''>'')"
  then obtain w x y c r where d: "s = w @ x @ CHR ''>'' # y @ c @ r"
      "map toLower w = map toLower (''<'' @ tag)" "CHR ''>'' \<notin> set x"
      "map toLower c = map toLower (''</'' @ tag @ ''>'')"
    by blast
  then have "literal (''<'' @ tag) s = Some (x @ CHR ''>'' # y @ c @ r)"
    unfolding literal_iff by blast
  moreover have "upToGt (x @ CHR ''>'' # y @ c @ r) = Some (y @ c @ r)"
    unfolding upToGt_iff using d(3) by blast
  moreover have "lazyUntil (''</'' @ tag @ ''>'') (y @ c @ r) \<noteq> None"
    unfolding lazyUntil_iff using d(4) by blast
  ultimately show "matchElement tag s \<noteq> None"
    by (simp add: matchElement_def)
qed


lemma quote_iff: "(quote s = Some r) = (\<exists>q. s = q # r \<and> isQuote q)"
  by (cases s) (auto simp: quote_def)

lemma relStylesheet_iff:
  "relStylesheet t
     = (\<exists>a q1 b q2 z. t = a @ q1 # b @ q2 # z \<and> map toLower a = map toLower ''rel=''
          \<and> isQuote q1 \<and> map toLower b = map toLower ''stylesheet'' \<and> isQuote q2)"
proof
  assume "relStylesheet t"
  then obtain r1 r2 r3 r4 where "literal ''rel='' t = Some r1" "quote r1 = Some r2"
      "literal ''stylesheet'' r2 = Some r3" "quote r3 = Some r4"
    unfolding relStylesheet_def
    by (cases "literal ''rel='' t"; simp; cases "quote (the (literal ''rel='' t))"; simp;
        cases "literal ''stylesheet'' (the (quote (the (literal ''rel='' t))))"; simp) blast
  then obtain a q1 b q2 where "t = a @ r1" "map toLower a = map toLower ''rel=''"
      "r1 = q1 # r2" "isQuote q1" "r2 = b @ r3" "map toLower b = map toLower ''stylesheet''"
      "r3 = q2 # r4" "isQuote q2"
    unfolding literal_iff quote_iff by blast
  then have "t = a @ q1 # b @ q2 # r4 \<and> map toLower a = map toLower ''rel=''
          \<and> isQuote q1 \<and> map toLower b = map toLower ''stylesheet'' \<and> isQuote q2"
    by simp
  then show "\<exists>a q1 b q2 z. t = a @ q1 # b @ q2 # z \<and> map toLower a = map toLower ''rel=''
          \<and> isQuote q1 \<and> map toLower b = map toLower ''stylesheet'' \<and> isQuote q2"
    by blast
next
  assume "\<exists>a q1 b q2 z. t = a @ q1 # b @ q2 # z \<and> map toLower a = map toLower ''rel=''
          \<and> isQuote q1 \<and> map toLower b = map toLower ''stylesheet'' \<and> isQuote q2"
  then obtain a q1 b q2 z where d: "t = a @ q1 # b @ q2 # z"
      "map toLower a = map toLower ''rel=''" "isQuote q1"
      "map toLower b = map toLower ''stylesheet''" "isQuote q2"
    by blast
  have "literal ''rel='' t = Some (q1 # b @ q2 # z)"
    unfolding literal_iff using d(1,2) by blast
  moreover have "quote (q1 # b @ q2 # z) = Some (b @ q2 # z)"
    using d(3) by (simp add: quote_def)
  moreover have "literal ''stylesheet'' (b @ q2 # z) = Some (q2 # z)"
    unfolding literal_iff using d(4) by blast
  moreover have "quote (q2 # z) = Some z"
    using d(5) by (simp add: quote_def)
  ultimately show "relStylesheet t"
    by (simp add: relStylesheet_def)
qed

lemma containsRelStylesheet_iff:
  "containsRelStylesheet t = (\<exists>x u. t = x @ u \<and> relStylesheet u)"
proof (induction t)
  case Nil
  have "\<not> relStylesheet []"
    by (simp add: relStylesheet_def)
  then show ?case by simp
next
  case (Cons c cs)
  show ?case
  proof
    assume "containsRelStylesheet (c # cs)"
    then consider "relStylesheet (c # cs)" | "containsRelStylesheet cs" by auto
    then show "\<exists>x u. c # cs = x @ u \<and> relStylesheet u"
    proof cases
      case 1
      then have "c # cs = [] @ (c # cs) \<and> relStylesheet (c # cs)" by simp
      then show ?thesis by blast
    next
      case 2
      with Cons obtain x u where "cs = x @ u" "relStylesheet u" by blast
      then have "c # cs = (c # x) @ u \<and> relStylesheet u" by simp
      then show ?thesis by blast
    qed
  next
    assume "\<exists>x u. c # cs = x @ u \<and> relStylesheet u"
    then obtain x u where d: "c # cs = x @ u" "relStylesheet u" by blast
    show "containsRelStylesheet (c # cs)"
    proof (cases x)
      case Nil
      with d have "relStylesheet (c # cs)" by simp
      then show ?thesis by simp
    next
      case (Cons a x')
      with d have "cs = x' @ u" by simp
      with d(2) Cons.IH have "containsRelStylesheet cs" by blast
      then show ?thesis by simp
    qed
  qed
qed

lemma takeWhile_upToGt:
  "upToGt r1 = Some r \<Longrightarrow> r1 = takeWhile (\<lambda>c. c \<noteq> CHR ''>'') r1 @ CHR ''>'' # r"
  by (induction r1) (auto split: if_splits)

lemma toLower_gt:
  assumes "toLower c = CHR ''>''"
  shows "c = CHR ''>''"
proof (cases "65 \<le> (of_char c :: nat) \<and> (of_char c :: nat) \<le> 90")
  case True
  define n where "n = (of_char c :: nat)"
  have "toLower c = char_of (n + 32)"
    using True by (simp add: toLower_def n_def)
  then have "(of_char (toLower c) :: nat) = (n + 32) mod 256"
    by (simp only: of_char_of)
  moreover have "(of_char (CHR ''>'') :: nat) = 62"
    by simp
  moreover have "(n + 32) mod 256 = n + 32"
    using True by (simp add: n_def)
  ultimately have "n + 32 = 62"
    using assms by (simp only:)
  with True show ?thesis
    by (simp add: n_def)
next
  case False
  with assms show ?thesis by (simp add: toLower_def)
qed

lemma no_gt_in_literal:
  assumes "map toLower a = map toLower p" and "CHR ''>'' \<notin> set p"
  shows "CHR ''>'' \<notin> set a"
proof
  assume "CHR ''>'' \<in> set a"
  then have "toLower (CHR ''>'') \<in> set (map toLower a)" by simp
  moreover have "toLower (CHR ''>'') = CHR ''>''" by (simp add: toLower_def)
  ultimately have "CHR ''>'' \<in> set (map toLower p)" using assms(1) by simp
  then obtain c where "c \<in> set p" "toLower c = CHR ''>''" by auto
  with toLower_gt assms(2) show False by blast
qed

lemma matchLink_iff:
  "(matchLink s \<noteq> None)
     = (\<exists>w x a q1 b q2 z r. s = w @ x @ a @ q1 # b @ q2 # z @ CHR ''>'' # r
          \<and> map toLower w = map toLower ''<link'' \<and> CHR ''>'' \<notin> set x
          \<and> map toLower a = map toLower ''rel='' \<and> isQuote q1
          \<and> map toLower b = map toLower ''stylesheet'' \<and> isQuote q2 \<and> CHR ''>'' \<notin> set z)"
proof
  assume "matchLink s \<noteq> None"
  then obtain r1 r where l: "literal ''<link'' s = Some r1"
      and c: "containsRelStylesheet (takeWhile (\<lambda>c. c \<noteq> CHR ''>'') r1)"
      and u: "upToGt r1 = Some r"
    by (auto simp: matchLink_def split: option.splits if_splits)
  define t where "t = takeWhile (\<lambda>c. c \<noteq> CHR ''>'') r1"
  have r1: "r1 = t @ CHR ''>'' # r"
    unfolding t_def using u by (rule takeWhile_upToGt)
  have nt: "CHR ''>'' \<notin> set t"
    unfolding t_def by (auto dest: set_takeWhileD)
  from c obtain x a q1 b q2 z where t: "t = x @ a @ q1 # b @ q2 # z"
      and p: "map toLower a = map toLower ''rel=''" "isQuote q1"
        "map toLower b = map toLower ''stylesheet''" "isQuote q2"
    unfolding t_def[symmetric] containsRelStylesheet_iff relStylesheet_iff by blast
  from l obtain w where w: "s = w @ r1" "map toLower w = map toLower ''<link''"
    unfolding literal_iff by blast
  have "s = w @ x @ a @ q1 # b @ q2 # z @ CHR ''>'' # r"
    by (simp add: w r1 t)
  moreover have "CHR ''>'' \<notin> set x" "CHR ''>'' \<notin> set z"
    using nt by (simp_all add: t)
  ultimately show "\<exists>w x a q1 b q2 z r. s = w @ x @ a @ q1 # b @ q2 # z @ CHR ''>'' # r
          \<and> map toLower w = map toLower ''<link'' \<and> CHR ''>'' \<notin> set x
          \<and> map toLower a = map toLower ''rel='' \<and> isQuote q1
          \<and> map toLower b = map toLower ''stylesheet'' \<and> isQuote q2 \<and> CHR ''>'' \<notin> set z"
    using w(2) p by blast
next
  assume "\<exists>w x a q1 b q2 z r. s = w @ x @ a @ q1 # b @ q2 # z @ CHR ''>'' # r
          \<and> map toLower w = map toLower ''<link'' \<and> CHR ''>'' \<notin> set x
          \<and> map toLower a = map toLower ''rel='' \<and> isQuote q1
          \<and> map toLower b = map toLower ''stylesheet'' \<and> isQuote q2 \<and> CHR ''>'' \<notin> set z"
  then obtain w x a q1 b q2 z r where d: "s = w @ x @ a @ q1 # b @ q2 # z @ CHR ''>'' # r"
      "map toLower w = map toLower ''<link''" "CHR ''>'' \<notin> set x"
      "map toLower a = map toLower ''rel=''" "isQuote q1"
      "map toLower b = map toLower ''stylesheet''" "isQuote q2" "CHR ''>'' \<notin> set z"
    by blast
  define t where "t = x @ a @ q1 # b @ q2 # z"
  have "CHR ''>'' \<notin> set a"
    by (rule no_gt_in_literal[OF d(4)]) simp
  moreover have "CHR ''>'' \<notin> set b"
    by (rule no_gt_in_literal[OF d(6)]) simp
  moreover have "q1 \<noteq> CHR ''>''" "q2 \<noteq> CHR ''>''"
    using d(5,7) by (auto simp: isQuote_def)
  ultimately have nt: "CHR ''>'' \<notin> set t"
    using d(3,8) by (simp add: t_def)
  have l: "literal ''<link'' s = Some (t @ CHR ''>'' # r)"
    unfolding literal_iff using d(1,2) by (simp add: t_def)
  have tw: "takeWhile (\<lambda>c. c \<noteq> CHR ''>'') (t @ CHR ''>'' # r) = t"
    using nt by (subst takeWhile_append2) auto
  have "relStylesheet (a @ q1 # b @ q2 # z)"
    unfolding relStylesheet_iff using d(4,5,6,7) by blast
  then have c: "containsRelStylesheet t"
    unfolding containsRelStylesheet_iff t_def by blast
  have u: "upToGt (t @ CHR ''>'' # r) = Some r"
    unfolding upToGt_iff using nt by blast
  show "matchLink s \<noteq> None"
    by (simp add: matchLink_def l tw c u)
qed

text \<open>A pattern matches somewhere in a string when it matches at the start of a non-empty
  rest of it.\<close>

lemma matchesIn_iff: "matchesIn m s = (\<exists>x u. s = x @ u \<and> u \<noteq> [] \<and> m u \<noteq> None)"
proof (induction s)
  case Nil
  then show ?case by simp
next
  case (Cons c cs)
  have "(\<exists>x u. c # cs = x @ u \<and> u \<noteq> [] \<and> m u \<noteq> None)
      = (m (c # cs) \<noteq> None \<or> (\<exists>x u. cs = x @ u \<and> u \<noteq> [] \<and> m u \<noteq> None))"
  proof
    assume "\<exists>x u. c # cs = x @ u \<and> u \<noteq> [] \<and> m u \<noteq> None"
    then obtain x u where d: "c # cs = x @ u" "u \<noteq> []" "m u \<noteq> None" by blast
    show "m (c # cs) \<noteq> None \<or> (\<exists>x u. cs = x @ u \<and> u \<noteq> [] \<and> m u \<noteq> None)"
    proof (cases x)
      case Nil
      with d show ?thesis by simp
    next
      case (Cons a x')
      with d have "cs = x' @ u" by simp
      with d(2,3) show ?thesis by blast
    qed
  next
    assume "m (c # cs) \<noteq> None \<or> (\<exists>x u. cs = x @ u \<and> u \<noteq> [] \<and> m u \<noteq> None)"
    then consider "m (c # cs) \<noteq> None"
      | x u where "cs = x @ u" "u \<noteq> []" "m u \<noteq> None"
      by blast
    then show "\<exists>x u. c # cs = x @ u \<and> u \<noteq> [] \<and> m u \<noteq> None"
    proof cases
      case 1
      then have "c # cs = [] @ (c # cs) \<and> c # cs \<noteq> [] \<and> m (c # cs) \<noteq> None" by simp
      then show ?thesis by blast
    next
      case 2
      then have "c # cs = (c # x) @ u \<and> u \<noteq> [] \<and> m u \<noteq> None" by simp
      then show ?thesis by blast
    qed
  qed
  with Cons show ?case by simp
qed

subsection \<open>\<^verbatim>\<open>sanitizeHTML\<close>\<close>






lemma replaceAll_length: "length (replaceAll m s) \<le> length s"
  by (induction m s rule: replaceAll.induct) (auto split: option.splits)

lemma replaceAll_shorter:
  "proper m \<Longrightarrow> matchesIn m s \<Longrightarrow> length (replaceAll m s) < length s"
proof (induction m s rule: replaceAll.induct)
  case (1 m)
  then show ?case by simp
next
  case (2 m c cs)
  show ?case
  proof (cases "m (c # cs)")
    case None
    with 2 show ?thesis by auto
  next
    case (Some rest)
    have "length rest < length (c # cs)"
      using "2.prems"(1) Some unfolding proper_def by blast
    moreover have "length (replaceAll m rest) \<le> length rest" by (rule replaceAll_length)
    ultimately show ?thesis using Some by simp
  qed
qed

lemma replaceAll_unchanged: "\<not> matchesIn m s \<Longrightarrow> replaceAll m s = s"
  by (induction s) auto

lemma replaceAll_id_iff: "proper m \<Longrightarrow> (replaceAll m s = s) = (\<not> matchesIn m s)"
  using replaceAll_shorter[of m s] replaceAll_unchanged[of m s] by fastforce







subsection \<open>\<^verbatim>\<open>filterHTML\<close>\<close>

text \<open>
  The default criterion ends in \<^verbatim>\<open>[^>]*>\<close>, so it matches only in a text that holds a
  \<^verbatim>\<open>>\<close>. The text \<^verbatim>\<open>filterHTML\<close> tests is \<^verbatim>\<open><\<close>, the slash and the tag name: it never holds
  one.
\<close>

lemma upToGt_has_gt: "upToGt s = Some r \<Longrightarrow> CHR ''>'' \<in> set s"
  by (induction s) (auto split: if_splits)

lemma literal_set: "literal p s = Some r \<Longrightarrow> set r \<subseteq> set s"
  by (induction p s rule: literal.induct) (auto split: if_splits)

lemma heading_set: "heading s = Some r \<Longrightarrow> set r \<subseteq> set s"
  by (auto simp: heading_def split: option.splits list.splits if_splits dest!: literal_set)

lemma boundaryThenGt_has_gt: "boundaryThenGt s = Some r \<Longrightarrow> CHR ''>'' \<in> set s"
  by (auto simp: boundaryThenGt_def split: list.splits if_splits dest: upToGt_has_gt)

lemma firstAlternative_has_gt:
  assumes "firstAlternative alts s = Some r"
    and "\<And>alt t r'. alt \<in> set alts \<Longrightarrow> alt t = Some r' \<Longrightarrow> set r' \<subseteq> set t"
  shows "CHR ''>'' \<in> set s"
  using assms
proof (induction alts)
  case Nil
  then show ?case by simp
next
  case (Cons alt alts)
  show ?case
  proof (cases "case alt s of None \<Rightarrow> None | Some r \<Rightarrow> boundaryThenGt r")
    case None
    with Cons.prems(1) have f: "firstAlternative alts s = Some r" by simp
    have "set r' \<subseteq> set t" if "alt' \<in> set alts" "alt' t = Some r'" for alt' t r'
      using Cons.prems(2)[of alt' t r'] that by simp
    with f show ?thesis by (rule Cons.IH)
  next
    case (Some rest)
    then obtain r' where "alt s = Some r'" "boundaryThenGt r' = Some rest"
      by (auto split: option.splits)
    with Cons.prems(2)[of alt s r'] boundaryThenGt_has_gt[of r' rest]
    show ?thesis by auto
  qed
qed

lemma matchDefault_has_gt: "matchDefault s = Some r \<Longrightarrow> CHR ''>'' \<in> set s"
proof -
  assume a: "matchDefault s = Some r"
  then obtain c cs where s: "s = c # cs" and f: "firstAlternative (map literal tagNames @ [heading]) cs = Some r"
    by (auto simp: matchDefault_def split: list.splits if_splits)
  have "CHR ''>'' \<in> set cs"
    using f by (rule firstAlternative_has_gt) (auto dest: literal_set heading_set)
  then show ?thesis by (simp add: s)
qed

lemma firstMatchEnd_matchDefault: "CHR ''>'' \<notin> set s \<Longrightarrow> firstMatchEnd matchDefault s = None"
proof (induction s)
  case Nil
  then show ?case by (simp add: matchDefault_def)
next
  case (Cons c cs)
  have "matchDefault (c # cs) = None"
    using matchDefault_has_gt[of "c # cs"] Cons.prems by (cases "matchDefault (c # cs)") auto
  with Cons show ?case by simp
qed

lemma some_test_default:
  assumes "CHR ''>'' \<notin> set str"
  shows "some_test defaultCriteria str = (False, defaultCriteria)"
proof -
  have "CHR ''>'' \<notin> set (drop 0 str)" using assms by simp
  then show ?thesis
    using firstMatchEnd_matchDefault[of str] assms
    by (simp add: defaultCriteria_def regexp_test_def searchFrom_def)
qed

lemma wordChar_not_gt: "isWordChar c \<Longrightarrow> c \<noteq> CHR ''>''"
  by (auto simp: isWordChar_def)

lemma matchTag_test_string:
  assumes "matchTag s = Some (closingSlash, tagName, attributes, rest)"
  shows "CHR ''>'' \<notin> set (''<'' @ closingSlash @ tagName)"
proof -
  obtain c r0 where s: "s = c # r0"
    using assms by (cases s) (auto simp: matchTag_def)
  have cs: "closingSlash = ''/'' \<or> closingSlash = []"
    using assms unfolding s matchTag_def
    by (auto simp: Let_def split: if_splits option.splits)
  have "\<exists>r1. tagName = takeWhile isWordChar r1"
    using assms unfolding s matchTag_def
    by (auto simp: Let_def split: if_splits option.splits)
  then have "\<forall>c \<in> set tagName. isWordChar c"
    by (auto dest: set_takeWhileD)
  then have "CHR ''>'' \<notin> set tagName"
    using wordChar_not_gt by blast
  with cs show ?thesis by auto
qed

lemma filteredParts_default: "filteredParts defaultCriteria html = []"
proof (induction html rule: length_induct)
  case (1 html)
  show ?case
  proof (cases html)
    case Nil
    then show ?thesis by simp
  next
    case (Cons c cs)
    show ?thesis
    proof (cases "matchTag (c # cs)")
      case None
      with 1 Cons show ?thesis by simp
    next
      case (Some m)
      obtain closingSlash tagName attributes rest where m: "m = (closingSlash, tagName, attributes, rest)"
        by (cases m) auto
      have "length rest < length html"
        using Some matchTag_shorter[of "c # cs"] by (simp add: m Cons)
      with 1 have "filteredParts defaultCriteria rest = []" by simp
      moreover have "some_test defaultCriteria (''<'' @ closingSlash @ tagName) = (False, defaultCriteria)"
        using matchTag_test_string[of "c # cs"] Some m by (intro some_test_default) simp
      ultimately show ?thesis
        using Some by (simp add: m Cons)
    qed
  qed
qed

lemma filterHTML_default_empty: "filterHTML html [] = []"
  by (simp add: filterHTML_def filteredParts_default)

text \<open>
  Claim C10 does not hold of the code: with the default criteria \<^verbatim>\<open>filterHTML\<close> keeps no
  tag at all, whatever the input (lemma \<open>filterHTML_default_empty\<close>). On a form with an
  input and a button, which the claim says are kept, it returns the empty string.
\<close>

theorem filterHTML_default_form:
  \<open>filterHTML ''<form id="f"><input name="q"><button>Go</button></form>'' [] = []\<close>
  by code_simp

text \<open>The criterion itself does match the whole tag, which is what the loop has at hand
  as \<^verbatim>\<open>fullMatch\<close>.\<close>

lemma matchDefault_whole_tag: \<open>matchDefault ''<input name="q">'' = Some []\<close>
  by code_simp

end
